theory Spec2Isabelle
  imports Complex_Main "HOL-Library.Word"
begin

unbundle bit_operations_syntax

section \<open>The lighting preview thread of hammer/lpreview\_thread.cpp\<close>

text \<open>
  Conventions of the embedding.
  \<^item> A C++ \<open>int\<close> that is used as a bit mask is a \<open>32 word\<close>; an \<open>int\<close> that is a small
    counter, a level, a time stamp or an identifier is a HOL \<open>int\<close> (the source never
    brings one of them near the 32-bit limits).
  \<^item> A \<open>float\<close> is represented by the real number it denotes (finite values only).
    Comparisons, minimum and maximum of floats are then those of the reals. Rounded
    arithmetic is not exact on floats, so each arithmetic operation is a parameter of the
    function that uses it.
  \<^item> A pointer that may be null is an \<open>option\<close>; dereferencing \<open>None\<close> is a \<open>fault\<close>.
  \<^item> Names are those of the source.
\<close>

subsection \<open>LineSchedule: \<open>InitIncrementalInformation\<close>\<close>

definition N_INCREMENTAL_STEPS :: nat where
  "N_INCREMENTAL_STEPS = 32"

text \<open>
  The inner \<open>while ( msk_test )\<close> loop of \<open>InitIncrementalInformation\<close>, which reverses the
  bits of \<open>i\<close>. \<open>msk_test\<close> starts at \<open>N_INCREMENTAL_STEPS >> 1\<close> and is never negative, so
  \<open>>>=\<close> is the logical shift.
\<close>

function bit_reverse_loop :: "32 word \<Rightarrow> 32 word \<Rightarrow> 32 word \<Rightarrow> 32 word \<Rightarrow> 32 word" where
  "bit_reverse_loop i msk msk_or msk_test =
     (if msk_test \<noteq> 0
      then bit_reverse_loop i
             (if i AND msk_test \<noteq> 0 then msk OR msk_or else msk)
             (push_bit 1 msk_or)
             (drop_bit 1 msk_test)
      else msk)"
  by pat_completeness auto
termination
proof (relation "measure (\<lambda>(i, msk, msk_or, msk_test). unat msk_test)")
  show "wf (measure (\<lambda>(i, msk, msk_or, msk_test). unat msk_test))"
    by simp
next
  fix i msk msk_or msk_test :: "32 word"
  assume nz: "msk_test \<noteq> 0"
  have "unat msk_test \<noteq> 0"
    using nz by (simp add: unat_eq_0)
  then have "unat msk_test div 2 < unat msk_test"
    by simp
  then have "unat (drop_bit 1 msk_test) < unat msk_test"
    by (simp add: drop_bit_eq_div drop_bit_Suc unat_div)
  then show "((i, if i AND msk_test \<noteq> 0 then msk OR msk_or else msk,
               push_bit 1 msk_or, drop_bit 1 msk_test),
              (i, msk, msk_or, msk_test))
             \<in> measure (\<lambda>(i, msk, msk_or, msk_test). unat msk_test)"
    by simp
qed

declare bit_reverse_loop.simps [simp del]

text \<open>
  The first \<open>for\<close> loop of \<open>InitIncrementalInformation\<close>: \<open>i\<close> runs from its start value
  up to \<open>N_INCREMENTAL_STEPS\<close>, \<open>calculated_bit_mask\<close> is the running mask and the list is
  the array \<open>m_LineMask\<close>.
\<close>

function InitLineMask :: "nat \<Rightarrow> 32 word \<Rightarrow> 32 word list \<Rightarrow> 32 word list" where
  "InitLineMask i calculated_bit_mask m_LineMask =
     (if i < N_INCREMENTAL_STEPS
      then (let msk = bit_reverse_loop (of_nat i) 0 1 (drop_bit 1 (of_nat N_INCREMENTAL_STEPS));
                calculated_bit_mask' = calculated_bit_mask OR push_bit (unat msk) 1
            in InitLineMask (Suc i) calculated_bit_mask' (m_LineMask[i := calculated_bit_mask']))
      else m_LineMask)"
  by pat_completeness auto
termination
  by (relation "measure (\<lambda>(i, c, m). N_INCREMENTAL_STEPS - i)") auto

declare InitLineMask.simps [simp del]

text \<open>The array \<open>m_LineMask\<close> as the constructor leaves it, and one entry of it.\<close>

definition m_LineMask :: "32 word list" where
  "m_LineMask = InitLineMask 0 0 (replicate N_INCREMENTAL_STEPS 0)"

definition LineMask :: "nat \<Rightarrow> 32 word" where
  "LineMask lvl = m_LineMask ! lvl"

text \<open>
  The innermost \<open>for ( chk = 0; chk <= linemod; chk++ )\<close> loop of the second half of
  \<open>InitIncrementalInformation\<close>, for one mask and one \<open>linemod\<close>.
\<close>

function closest_line_loop :: "32 word \<Rightarrow> int \<Rightarrow> int \<Rightarrow> int \<Rightarrow> int" where
  "closest_line_loop line_mask linemod chk closest_line =
     (if chk \<le> linemod
      then closest_line_loop line_mask linemod (chk + 1)
             (if line_mask AND push_bit (nat chk) 1 \<noteq> 0
              then (if \<bar>chk - linemod\<bar> < \<bar>closest_line - linemod\<bar> then chk else closest_line)
              else closest_line)
      else closest_line)"
  by pat_completeness auto
termination
  by (relation "measure (\<lambda>(line_mask, linemod, chk, c). nat (linemod + 1 - chk))") auto

declare closest_line_loop.simps [simp del]

text \<open>
  The entry \<open>m_ClosestLineOffset[lvl][linemod]\<close> after initialisation: the value that the
  iteration \<open>(lvl, linemod)\<close> of the two outer loops stores. The array is declared
  \<open>[N_INCREMENTAL_STEPS][N_INCREMENTAL_STEPS]\<close>; the source's loop also runs
  \<open>linemod = N_INCREMENTAL_STEPS\<close>, where it shifts \<open>1\<close> by 32 and stores one past the end
  of the row. That slot is not an entry of the table, so the lookup is \<open>None\<close> there.
\<close>

definition ClosestLineOffset :: "nat \<Rightarrow> nat \<Rightarrow> int option" where
  "ClosestLineOffset lvl linemod =
     (if lvl < N_INCREMENTAL_STEPS \<and> linemod < N_INCREMENTAL_STEPS
      then Some (closest_line_loop (LineMask lvl) (int linemod) 0 1000000)
      else None)"

text \<open>
  Spec-side reading of the two tables, for comparison with the code: the reversal of the
  low \<open>log2 N = 5\<close> bits of \<open>k\<close>, and the set bit of a mask that is nearest to \<open>m\<close> among
  all its set bits (\<open>arg_min_list\<close> keeps the earlier, lower, index on a tie).
\<close>

definition spec_bit_reverse :: "nat \<Rightarrow> nat" where
  "spec_bit_reverse k = sum_list (map (\<lambda>j. if bit k j then 2 ^ (4 - j) else 0) [0..<5])"

definition spec_closest_line :: "32 word \<Rightarrow> nat \<Rightarrow> nat" where
  "spec_closest_line line_mask m =
     arg_min_list (\<lambda>b. \<bar>int b - int m\<bar>) (filter (\<lambda>b. bit line_mask b) [0..<32])"

subsection \<open>Data model\<close>

datatype Vector = Vector (vx: real) (vy: real) (vz: real)

datatype LightType_t =
  MATERIAL_LIGHT_DISABLE | MATERIAL_LIGHT_POINT | MATERIAL_LIGHT_DIRECTIONAL | MATERIAL_LIGHT_SPOT

text \<open>
  \<open>CLightingPreviewLightDescription\<close> is declared in a header that is not among the
  sources; these are the members that lpreview\_thread.cpp reads and writes.
  \<open>m_pIncrementalInfo\<close> is the address of the light's \<open>CIncrementalLightInfo\<close>, or null.
\<close>

record CLightingPreviewLightDescription =
  m_Type :: LightType_t
  m_Position :: Vector
  m_Color :: Vector
  m_nObjectID :: int
  m_pIncrementalInfo :: "nat option"

datatype IncrementalLightState =
  INCR_STATE_NO_RESULTS | INCR_STATE_PARTIAL_RESULTS | INCR_STATE_NEW | INCR_STATE_HAVE_FULL_RESULTS

text \<open>The enumerators' integer values, as the enum declares them.\<close>

fun enum_value :: "IncrementalLightState \<Rightarrow> int" where
  "enum_value INCR_STATE_NO_RESULTS = 0"
| "enum_value INCR_STATE_PARTIAL_RESULTS = 1"
| "enum_value INCR_STATE_NEW = 2"
| "enum_value INCR_STATE_HAVE_FULL_RESULTS = 3"

text \<open>
  \<open>CSIMDVectorMatrix\<close> (mathlib, not among the sources) is represented by its dimensions;
  \<open>SetSize\<close> sets them and \<open>SetSize( 0, 0 )\<close> releases the storage. The pixel data of a
  matrix is not part of this record; the per-group arithmetic on it is modelled with
  the shading kernel below.
\<close>

record CSIMDVectorMatrix =
  m_nWidth :: int
  m_nHeight :: int

definition SetSize :: "int \<Rightarrow> int \<Rightarrow> CSIMDVectorMatrix \<Rightarrow> CSIMDVectorMatrix" where
  "SetSize width height m = m\<lparr>m_nWidth := width, m_nHeight := height\<rparr>"

text \<open>
  \<open>CIncrementalLightInfo\<close>. \<open>m_pNext\<close> is the order of the list that holds the records.
  \<open>m_pLight\<close> points to a light description, which nothing mutates after
  \<open>UpdateIncrementalForNewLightList\<close> has bound it, so the field holds the description
  pointed to; the constructor's \<open>nullptr\<close> is replaced in the statement that follows
  every \<open>new CIncrementalLightInfo\<close>. The record's own \<open>m_nObjectID\<close> member is named
  \<open>m_nObjectID_info\<close> here, the plain name being the light description's.
\<close>

record CIncrementalLightInfo =
  m_pLight :: CLightingPreviewLightDescription
  m_nObjectID_info :: int
  m_PartialResultsStage :: int
  m_eIncrState :: IncrementalLightState
  m_CalculatedContribution :: CSIMDVectorMatrix
  m_fTotalContribution :: real
  m_fDistanceToEye :: real
  m_nMostRecentNonZeroContributionTimeStamp :: int

text \<open>
  The state of \<open>CLightingPreviewThread\<close>. \<open>m_pIncrementalLightInfoList\<close> is the linked list
  of records, head first, each with its address. \<open>m_pRtEnv\<close> is the ray tracing
  environment (an external library), represented by the triangle vertices it was
  built from. \<open>m_Positions\<close> is represented by the sequence of points that
  \<open>CalculateSceneBounds\<close> visits. The tables \<open>m_LineMask\<close> and \<open>m_ClosestLineOffset\<close> are
  constant after construction and are the definitions above.
\<close>

record CLightingPreviewThread =
  m_pLightList :: "CLightingPreviewLightDescription list option"
  m_Positions :: "Vector list"
  m_Albedos :: CSIMDVectorMatrix
  m_pRtEnv :: "Vector list option"
  m_pIncrementalLightInfoList :: "(nat \<times> CIncrementalLightInfo) list"
  m_bAccStructureBuilt :: bool
  m_LastEyePosition :: Vector
  m_bResultChangedSinceLastSend :: bool
  m_fLastSendTime :: real
  m_nBitmapGenerationCounter :: int
  m_nContributionCounter :: int
  m_MinViewCoords :: Vector
  m_MaxViewCoords :: Vector

subsection \<open>Priority: \<open>IsHighPriority\<close> and \<open>IsLowerPriorityThan\<close>\<close>

text \<open>
  Modelled from the spec: \<open>Vector::WithinAABox\<close> is a mathlib function, missing from the
  sources. The spec says the position "lies within the scene bounds", the bounds being
  the "min/max world-space corners": each coordinate lies between the corners'.
\<close>

definition WithinAABox :: "Vector \<Rightarrow> Vector \<Rightarrow> Vector \<Rightarrow> bool" where
  "WithinAABox p boxmin boxmax =
     (vx boxmin \<le> vx p \<and> vx p \<le> vx boxmax \<and>
      vy boxmin \<le> vy p \<and> vy p \<le> vy boxmax \<and>
      vz boxmin \<le> vz p \<and> vz p \<le> vz boxmax)"

definition IsHighPriority :: "CLightingPreviewThread \<Rightarrow> CIncrementalLightInfo \<Rightarrow> bool" where
  "IsHighPriority pLPV this =
     (if m_eIncrState this = INCR_STATE_NEW \<and>
         WithinAABox (m_Position (m_pLight this)) (m_MinViewCoords pLPV) (m_MaxViewCoords pLPV)
      then True
      else False)"

text \<open>
  \<open>IsLowerPriorityThan\<close>: the two early returns, then the \<open>switch\<close> on \<open>state_combo\<close>. The
  case labels are the source's expressions; the last one is written
  \<open>INCR_STATE_NO_RESULTS * 16 + INCR_STATE_NO_RESULTS\<close> there.
\<close>

definition IsLowerPriorityThan ::
  "CLightingPreviewThread \<Rightarrow> CIncrementalLightInfo \<Rightarrow> CIncrementalLightInfo \<Rightarrow> bool" where
  "IsLowerPriorityThan pLPV this other =
     (let highpriority = IsHighPriority pLPV this;
          other_highpriority = IsHighPriority pLPV other
      in if highpriority \<and> \<not> other_highpriority then False
         else if other_highpriority \<and> \<not> highpriority then True
         else
           (let state_combo = enum_value (m_eIncrState this) + 16 * enum_value (m_eIncrState other)
            in if state_combo = enum_value INCR_STATE_NEW + 16 * enum_value INCR_STATE_NEW
               then m_fDistanceToEye this > m_fDistanceToEye other
               else if state_combo = enum_value INCR_STATE_NEW + 16 * enum_value INCR_STATE_NO_RESULTS
               then m_fTotalContribution other > 0
               else if state_combo = enum_value INCR_STATE_NEW + 16 * enum_value INCR_STATE_PARTIAL_RESULTS
               then False
               else if state_combo = enum_value INCR_STATE_PARTIAL_RESULTS + 16 * enum_value INCR_STATE_NEW
               then True
               else if state_combo = enum_value INCR_STATE_NO_RESULTS + 16 * enum_value INCR_STATE_NEW
               then m_fTotalContribution this = 0
               else if state_combo = enum_value INCR_STATE_PARTIAL_RESULTS + 16 * enum_value INCR_STATE_PARTIAL_RESULTS
               then (if m_fTotalContribution this = 0 \<and> m_fTotalContribution other = 0 \<and>
                        m_nMostRecentNonZeroContributionTimeStamp other
                          > m_nMostRecentNonZeroContributionTimeStamp this
                     then True
                     else if m_fTotalContribution other = 0 \<and> m_fTotalContribution this > 0
                     then False
                     else if m_fTotalContribution this = 0 \<and> m_fTotalContribution other > 0
                     then True
                     else if \<bar>m_PartialResultsStage this - m_PartialResultsStage other\<bar> \<le> 1
                     then m_fTotalContribution this < m_fTotalContribution other
                     else m_PartialResultsStage this > m_PartialResultsStage other)
               else if state_combo = enum_value INCR_STATE_PARTIAL_RESULTS + 16 * enum_value INCR_STATE_NO_RESULTS
               then (if m_fTotalContribution other \<noteq> 0 then True
                     else if m_fTotalContribution this = 0 \<and> m_fTotalContribution other = 0
                     then m_nMostRecentNonZeroContributionTimeStamp other
                            > m_nMostRecentNonZeroContributionTimeStamp this
                     else m_fTotalContribution this < m_fTotalContribution other)
               else if state_combo = enum_value INCR_STATE_NO_RESULTS + 16 * enum_value INCR_STATE_PARTIAL_RESULTS
               then (if m_fTotalContribution this \<noteq> 0 then False
                     else if m_fTotalContribution this = 0 \<and> m_fTotalContribution other = 0
                     then m_nMostRecentNonZeroContributionTimeStamp other
                            > m_nMostRecentNonZeroContributionTimeStamp this
                     else m_fTotalContribution this < m_fTotalContribution other)
               else if state_combo = enum_value INCR_STATE_NO_RESULTS * 16 + enum_value INCR_STATE_NO_RESULTS
               then (if m_fTotalContribution this = 0 \<and> m_fTotalContribution other = 0
                     then m_nMostRecentNonZeroContributionTimeStamp other
                            > m_nMostRecentNonZeroContributionTimeStamp this
                     else m_fTotalContribution this < m_fTotalContribution other)
               else False))"

subsection \<open>Per-light bookkeeping\<close>

text \<open>\<open>CIncrementalLightInfo::DiscardResults\<close> and \<open>CIncrementalLightInfo::HasWorkToDo\<close>.\<close>

definition CIncrementalLightInfo_DiscardResults :: "CIncrementalLightInfo \<Rightarrow> CIncrementalLightInfo" where
  "CIncrementalLightInfo_DiscardResults this =
     (let this1 = this\<lparr>m_CalculatedContribution := SetSize 0 0 (m_CalculatedContribution this)\<rparr>
      in if m_eIncrState this1 \<noteq> INCR_STATE_NEW
         then this1\<lparr>m_eIncrState := INCR_STATE_NO_RESULTS\<rparr>
         else this1)"

definition HasWorkToDo :: "CIncrementalLightInfo \<Rightarrow> bool" where
  "HasWorkToDo this = (m_eIncrState this \<noteq> INCR_STATE_HAVE_FULL_RESULTS)"

text \<open>
  The constructor of \<open>CIncrementalLightInfo\<close> followed by the two assignments that
  \<open>UpdateIncrementalForNewLightList\<close> makes to every new record.
\<close>

definition new_CIncrementalLightInfo :: "CLightingPreviewLightDescription \<Rightarrow> CIncrementalLightInfo" where
  "new_CIncrementalLightInfo descr =
     \<lparr>m_pLight = descr,
      m_nObjectID_info = m_nObjectID descr,
      m_PartialResultsStage = 0,
      m_eIncrState = INCR_STATE_NEW,
      m_CalculatedContribution = \<lparr>m_nWidth = 0, m_nHeight = 0\<rparr>,
      m_fTotalContribution = 0,
      m_fDistanceToEye = 0,
      m_nMostRecentNonZeroContributionTimeStamp = 0\<rparr>"

text \<open>
  What can go wrong at a dereference: \<open>m_pLightList\<close> null where the source does not test
  it, a light whose \<open>m_pIncrementalInfo\<close> is null or addresses no record, and an index
  outside \<open>m_LineMask\<close>.
\<close>

datatype fault = NullLightList | BadIncrementalInfo | LineMaskIndex

definition deref ::
  "(nat \<times> CIncrementalLightInfo) list \<Rightarrow> nat option \<Rightarrow> fault + nat \<times> CIncrementalLightInfo" where
  "deref infos p =
     (case p of
        None \<Rightarrow> Inl BadIncrementalInfo
      | Some a \<Rightarrow> (case map_of infos a of
                    None \<Rightarrow> Inl BadIncrementalInfo
                  | Some l_info \<Rightarrow> Inr (a, l_info)))"

text \<open>An assignment through a pointer to a record: \<open>f\<close> is applied to the record at address \<open>a\<close>.\<close>

definition update_at ::
  "nat \<Rightarrow> (CIncrementalLightInfo \<Rightarrow> CIncrementalLightInfo) \<Rightarrow>
   (nat \<times> CIncrementalLightInfo) list \<Rightarrow> (nat \<times> CIncrementalLightInfo) list" where
  "update_at a f infos = map (\<lambda>(b, i). if b = a then (b, f i) else (b, i)) infos"

text \<open>
  The environment of the thread: the clock (\<open>Plat_FloatTime\<close>, by the number of the
  reading), the answers of \<open>g_HammerToLPreviewMsgQueue.MessageWaiting()\<close> (by the number of
  the poll), mathlib's \<open>Vector::DistTo\<close>, the rounded float addition and subtraction, and
  the value that one call of \<open>CalculateForLightTask\<close> writes to \<open>fContributionOut\<close>.
\<close>

record Environment =
  Plat_FloatTime :: "nat \<Rightarrow> real"
  MessageWaiting :: "nat \<Rightarrow> bool"
  DistTo :: "Vector \<Rightarrow> Vector \<Rightarrow> real"
  fadd :: "real \<Rightarrow> real \<Rightarrow> real"
  fsub :: "real \<Rightarrow> real \<Rightarrow> real"
  fContributionOut ::
    "CLightingPreviewThread \<Rightarrow> int \<Rightarrow> int \<Rightarrow> CLightingPreviewLightDescription \<Rightarrow> 32 word \<Rightarrow> real"

subsection \<open>\<open>CalculateForLight\<close>\<close>

text \<open>
  The end of \<open>CalculateForLight\<close>, after \<open>EndExecuteParallel\<close>: \<open>total_light\<close> holds the four
  values returned by the tasks, \<open>counter\<close> is \<open>m_nContributionCounter\<close>.
\<close>

definition CalculateForLight_accum ::
  "(real \<Rightarrow> real \<Rightarrow> real) \<Rightarrow> int \<Rightarrow> int \<Rightarrow> real list \<Rightarrow> CIncrementalLightInfo \<Rightarrow> CIncrementalLightInfo" where
  "CalculateForLight_accum add counter new_incr_level total_light l_info =
     (let l1 = l_info\<lparr>m_fTotalContribution := foldl add 0 total_light\<rparr>;
          l2 = (if m_fTotalContribution l1 = 0
                then l1\<lparr>m_CalculatedContribution := SetSize 0 0 (m_CalculatedContribution l1)\<rparr>
                else l1\<lparr>m_nMostRecentNonZeroContributionTimeStamp := counter\<rparr>);
          l3 = l2\<lparr>m_PartialResultsStage := new_incr_level\<rparr>
      in if new_incr_level = int N_INCREMENTAL_STEPS - 1
         then l3\<lparr>m_eIncrState := INCR_STATE_HAVE_FULL_RESULTS\<rparr>
         else l3\<lparr>m_eIncrState := INCR_STATE_PARTIAL_RESULTS\<rparr>)"

definition m_LineMask_at :: "int \<Rightarrow> fault + 32 word" where
  "m_LineMask_at i =
     (if 0 \<le> i \<and> i < int N_INCREMENTAL_STEPS then Inr (LineMask (nat i)) else Inl LineMaskIndex)"

text \<open>
  The four calls of \<open>ExecuteParallel\<close> between \<open>BeginExecuteParallel\<close> and
  \<open>EndExecuteParallel\<close>: \<open>nLineMask\<close> is \<open>0b11\<close>, \<open>nLineMatch\<close> runs over \<open>0b00\<close> to \<open>0b11\<close>, and
  the values written to \<open>fContributionOut\<close> are the elements of \<open>total_light\<close>.
\<close>

definition ExecuteParallel ::
  "Environment \<Rightarrow> CLightingPreviewThread \<Rightarrow> CLightingPreviewLightDescription \<Rightarrow> 32 word \<Rightarrow> real list" where
  "ExecuteParallel env t l calc_mask =
     map (\<lambda>nLineMatch. fContributionOut env t 3 nLineMatch l calc_mask) [0, 1, 2, 3]"

definition CalculateForLight ::
  "Environment \<Rightarrow> CLightingPreviewLightDescription \<Rightarrow> CLightingPreviewThread \<Rightarrow> fault + CLightingPreviewThread" where
  "CalculateForLight env l t =
     (let t1 = (if m_pRtEnv t \<noteq> None \<and> \<not> m_bAccStructureBuilt t
                then t\<lparr>m_bAccStructureBuilt := True\<rparr> else t)
      in case deref (m_pIncrementalLightInfoList t1) (m_pIncrementalInfo l) of
           Inl f \<Rightarrow> Inl f
         | Inr (a, l_info) \<Rightarrow>
            (let t2 = t1\<lparr>m_pIncrementalLightInfoList :=
                          update_at a
                            (\<lambda>i. i\<lparr>m_CalculatedContribution :=
                                     SetSize (m_nWidth (m_Albedos t1)) (m_nHeight (m_Albedos t1))
                                       (m_CalculatedContribution i)\<rparr>)
                            (m_pIncrementalLightInfoList t1)\<rparr>;
                 partial = (m_eIncrState l_info = INCR_STATE_PARTIAL_RESULTS);
                 new_incr_level = (if partial then 1 + m_PartialResultsStage l_info else 0)
             in case (if partial then m_LineMask_at (m_PartialResultsStage l_info) else Inr 0) of
                  Inl f \<Rightarrow> Inl f
                | Inr prev_msk \<Rightarrow>
                   (case m_LineMask_at new_incr_level of
                      Inl f \<Rightarrow> Inl f
                    | Inr new_msk \<Rightarrow>
                       (let calc_mask = new_msk AND NOT prev_msk;
                            total_light = ExecuteParallel env t2 l calc_mask
                        in Inr (t2\<lparr>m_pIncrementalLightInfoList :=
                                      update_at a
                                        (CalculateForLight_accum (fadd env) (m_nContributionCounter t2)
                                           new_incr_level total_light)
                                        (m_pIncrementalLightInfoList t2)\<rparr>)))))"

subsection \<open>Discarding results\<close>

text \<open>
  The loop of \<open>CLightingPreviewThread::DiscardResults\<close> that updates the distances to the eye,
  over the lights that remain.
\<close>

fun DiscardResults_distances ::
  "Environment \<Rightarrow> Vector \<Rightarrow> CLightingPreviewLightDescription list \<Rightarrow>
   (nat \<times> CIncrementalLightInfo) list \<Rightarrow> fault + (nat \<times> CIncrementalLightInfo) list" where
  "DiscardResults_distances env eye [] infos = Inr infos"
| "DiscardResults_distances env eye (l # ls) infos =
     (case deref infos (m_pIncrementalInfo l) of
        Inl f \<Rightarrow> Inl f
      | Inr (a, l_info) \<Rightarrow>
          DiscardResults_distances env eye ls
            (update_at a
               (\<lambda>i. if m_Type l = MATERIAL_LIGHT_DIRECTIONAL
                    then i\<lparr>m_fDistanceToEye := 0\<rparr>
                    else i\<lparr>m_fDistanceToEye := DistTo env eye (m_Position l)\<rparr>)
               infos))"

text \<open>
  \<open>CLightingPreviewThread::DiscardResults\<close>; \<open>now\<close> is the reading of \<open>Plat_FloatTime()\<close> in its
  last statement.
\<close>

definition DiscardResults ::
  "Environment \<Rightarrow> real \<Rightarrow> CLightingPreviewThread \<Rightarrow> fault + CLightingPreviewThread" where
  "DiscardResults env now t =
     (let t1 = t\<lparr>m_pIncrementalLightInfoList :=
                   map (\<lambda>(a, i). (a, CIncrementalLightInfo_DiscardResults i))
                     (m_pIncrementalLightInfoList t)\<rparr>;
          t2 = t1\<lparr>m_nContributionCounter := m_nContributionCounter t1 + 1\<rparr>
      in case (case m_pLightList t2 of
                 None \<Rightarrow> Inr (m_pIncrementalLightInfoList t2)
               | Some ls \<Rightarrow> DiscardResults_distances env (m_LastEyePosition t2) ls
                              (m_pIncrementalLightInfoList t2)) of
           Inl f \<Rightarrow> Inl f
         | Inr infos \<Rightarrow>
             Inr (t2\<lparr>m_pIncrementalLightInfoList := infos,
                     m_bResultChangedSinceLastSend := True,
                     m_fLastSendTime := fsub env now 9\<rparr>))"

subsection \<open>Messages\<close>

text \<open>
  \<open>MessageToLPreview\<close> by message type, with the members each handler reads: the light list
  and the eye; the shadow triangle list; for the G-buffers the width and height of the
  albedo bitmap, the points of the position bitmap (as \<open>m_Positions\<close> holds them), the
  eye and the generation counter.
\<close>

datatype MessageToLPreview =
    LPREVIEW_MSG_EXIT
  | LPREVIEW_MSG_LIGHT_DATA "CLightingPreviewLightDescription list" Vector
  | LPREVIEW_MSG_GEOM_DATA "Vector list"
  | LPREVIEW_MSG_G_BUFFERS int int "Vector list" Vector int

text \<open>
  \<open>MessageFromLPreview\<close>: the bitmap (by its width and height) and the generation counter.
\<close>

datatype MessageFromLPreview =
    LPREVIEW_MSG_DISPLAY_RESULT (m_pBitmapToDisplay: "int \<times> int") (generation: int)

text \<open>
  What an observer of the two queues sees, in order: a message taken from
  \<open>g_HammerToLPreviewMsgQueue\<close>, a message put on \<open>g_LPreviewToHammerMsgQueue\<close>.
\<close>

datatype event = Handled MessageToLPreview | Queued MessageFromLPreview

record World =
  clock_reads :: nat
  polls :: nat
  events :: "event list"

definition read_clock :: "Environment \<Rightarrow> World \<Rightarrow> real \<times> World" where
  "read_clock env w = (Plat_FloatTime env (clock_reads w), w\<lparr>clock_reads := clock_reads w + 1\<rparr>)"

text \<open>\<open>UpdateIncrementalForNewLightList\<close>: the search of the record list for one object id.\<close>

fun find_info :: "int \<Rightarrow> (nat \<times> CIncrementalLightInfo) list \<Rightarrow> nat option" where
  "find_info object_id [] = None"
| "find_info object_id ((a, i) # rest) =
     (if m_nObjectID_info i = object_id then Some a else find_info object_id rest)"

text \<open>
  The outer loop of \<open>UpdateIncrementalForNewLightList\<close>: \<open>visited\<close> are the descriptions already
  visited, in order. A new record gets the next unused address and is put at the head
  of the list.
\<close>

fun UpdateIncremental_loop ::
  "CLightingPreviewLightDescription list \<Rightarrow> CLightingPreviewLightDescription list \<Rightarrow>
   (nat \<times> CIncrementalLightInfo) list \<Rightarrow>
   CLightingPreviewLightDescription list \<times> (nat \<times> CIncrementalLightInfo) list" where
  "UpdateIncremental_loop visited [] infos = (visited, infos)"
| "UpdateIncremental_loop visited (descr # rest) infos =
     (case find_info (m_nObjectID descr) infos of
        Some a \<Rightarrow>
          (let descr1 = descr\<lparr>m_pIncrementalInfo := Some a\<rparr>
           in UpdateIncremental_loop (visited @ [descr1]) rest
                (update_at a (\<lambda>i. i\<lparr>m_pLight := descr1\<rparr>) infos))
      | None \<Rightarrow>
          (if m_pIncrementalInfo descr = None
           then (let a = length infos;
                     descr1 = descr\<lparr>m_pIncrementalInfo := Some a\<rparr>
                 in UpdateIncremental_loop (visited @ [descr1]) rest
                      ((a, new_CIncrementalLightInfo descr1) # infos))
           else UpdateIncremental_loop (visited @ [descr]) rest infos))"

definition UpdateIncrementalForNewLightList ::
  "CLightingPreviewThread \<Rightarrow> fault + CLightingPreviewThread" where
  "UpdateIncrementalForNewLightList t =
     (case m_pLightList t of
        None \<Rightarrow> Inl NullLightList
      | Some ls \<Rightarrow>
          (let (ls1, infos) = UpdateIncremental_loop [] ls (m_pIncrementalLightInfoList t)
           in Inr (t\<lparr>m_pLightList := Some ls1, m_pIncrementalLightInfoList := infos\<rparr>)))"

text \<open>
  \<open>HandleGeomMessage\<close>: the environment is dropped, and built again from the triangles
  unless there are none. It ends with a call of \<open>DiscardResults\<close>.
\<close>

definition HandleGeomMessage ::
  "Environment \<Rightarrow> Vector list \<Rightarrow> real \<Rightarrow> CLightingPreviewThread \<Rightarrow> fault + CLightingPreviewThread" where
  "HandleGeomMessage env tris now t =
     (let t1 = t\<lparr>m_pRtEnv := None\<rparr>;
          t2 = (if tris \<noteq> [] then t1\<lparr>m_pRtEnv := Some tris\<rparr> else t1);
          t3 = t2\<lparr>m_bAccStructureBuilt := False\<rparr>
      in DiscardResults env now t3)"

text \<open>
  \<open>CalculateSceneBounds\<close>: the componentwise minimum and maximum of the eye and of every
  point of \<open>m_Positions\<close>.
\<close>

definition CalculateSceneBounds :: "CLightingPreviewThread \<Rightarrow> CLightingPreviewThread" where
  "CalculateSceneBounds t =
     t\<lparr>m_MinViewCoords :=
         foldl (\<lambda>b p. Vector (min (vx p) (vx b)) (min (vy p) (vy b)) (min (vz p) (vz b)))
           (m_LastEyePosition t) (m_Positions t),
       m_MaxViewCoords :=
         foldl (\<lambda>b p. Vector (max (vx p) (vx b)) (max (vy p) (vy b)) (max (vz p) (vz b)))
           (m_LastEyePosition t) (m_Positions t)\<rparr>"

definition HandleGBuffersMessage ::
  "int \<Rightarrow> int \<Rightarrow> Vector list \<Rightarrow> Vector \<Rightarrow> int \<Rightarrow> CLightingPreviewThread \<Rightarrow> CLightingPreviewThread" where
  "HandleGBuffersMessage width height positions eye gen t =
     CalculateSceneBounds
       (t\<lparr>m_Albedos := \<lparr>m_nWidth = width, m_nHeight = height\<rparr>,
          m_Positions := positions,
          m_LastEyePosition := eye,
          m_nBitmapGenerationCounter := gen\<rparr>)"

text \<open>
  \<open>HandleAMessage\<close> for the message \<open>msg_in\<close> that \<open>WaitMessage\<close> returned. The Boolean is
  the return value (the thread should exit).
\<close>

definition HandleAMessage ::
  "Environment \<Rightarrow> MessageToLPreview \<Rightarrow> World \<Rightarrow> CLightingPreviewThread \<Rightarrow>
   fault + bool \<times> World \<times> CLightingPreviewThread" where
  "HandleAMessage env msg_in w t =
     (case msg_in of
        LPREVIEW_MSG_EXIT \<Rightarrow> Inr (True, w, t)
      | LPREVIEW_MSG_LIGHT_DATA lights eye \<Rightarrow>
          (case UpdateIncrementalForNewLightList
                  (t\<lparr>m_pLightList := Some lights, m_LastEyePosition := eye\<rparr>) of
             Inl f \<Rightarrow> Inl f
           | Inr t1 \<Rightarrow>
               (let (now, w1) = read_clock env w
                in case DiscardResults env now t1 of
                     Inl f \<Rightarrow> Inl f
                   | Inr t2 \<Rightarrow> Inr (False, w1, t2)))
      | LPREVIEW_MSG_GEOM_DATA tris \<Rightarrow>
          (let (now1, w1) = read_clock env w
           in case HandleGeomMessage env tris now1 t of
                Inl f \<Rightarrow> Inl f
              | Inr t1 \<Rightarrow>
                  (let (now2, w2) = read_clock env w1
                   in case DiscardResults env now2 t1 of
                        Inl f \<Rightarrow> Inl f
                      | Inr t2 \<Rightarrow> Inr (False, w2, t2)))
      | LPREVIEW_MSG_G_BUFFERS width height positions eye gen \<Rightarrow>
          (let t1 = HandleGBuffersMessage width height positions eye gen t;
               (now, w1) = read_clock env w
           in case DiscardResults env now t1 of
                Inl f \<Rightarrow> Inl f
              | Inr t2 \<Rightarrow> Inr (False, w1, t2)))"

subsection \<open>The scheduler\<close>

text \<open>The loop of \<open>AnyUsefulWorkToDo\<close> over the lights, and the function.\<close>

fun AnyUsefulWorkToDo_loop ::
  "CLightingPreviewThread \<Rightarrow> CLightingPreviewLightDescription list \<Rightarrow> fault + bool" where
  "AnyUsefulWorkToDo_loop t [] = Inr False"
| "AnyUsefulWorkToDo_loop t (l # ls) =
     (case deref (m_pIncrementalLightInfoList t) (m_pIncrementalInfo l) of
        Inl f \<Rightarrow> Inl f
      | Inr (a, l_info) \<Rightarrow>
          (if HasWorkToDo l_info then Inr (m_pRtEnv t \<noteq> None)
           else AnyUsefulWorkToDo_loop t ls))"

definition AnyUsefulWorkToDo :: "CLightingPreviewThread \<Rightarrow> fault + bool" where
  "AnyUsefulWorkToDo t =
     (case m_pLightList t of
        Some ls \<Rightarrow> AnyUsefulWorkToDo_loop t ls
      | None \<Rightarrow> Inr False)"

text \<open>The selection loop of \<open>DoWork\<close>; \<open>best_l\<close> is the pointer of that name.\<close>

fun DoWork_loop ::
  "CLightingPreviewThread \<Rightarrow> CLightingPreviewLightDescription list \<Rightarrow>
   CLightingPreviewLightDescription option \<Rightarrow> fault + CLightingPreviewLightDescription option" where
  "DoWork_loop t [] best_l = Inr best_l"
| "DoWork_loop t (l # ls) best_l =
     (case deref (m_pIncrementalLightInfoList t) (m_pIncrementalInfo l) of
        Inl f \<Rightarrow> Inl f
      | Inr (a, l_info) \<Rightarrow>
          (if HasWorkToDo l_info
           then (case best_l of
                   None \<Rightarrow> DoWork_loop t ls (Some l)
                 | Some b \<Rightarrow>
                     (case deref (m_pIncrementalLightInfoList t) (m_pIncrementalInfo b) of
                        Inl f \<Rightarrow> Inl f
                      | Inr (c, b_info) \<Rightarrow>
                          (if IsLowerPriorityThan t b_info l_info
                           then DoWork_loop t ls (Some l)
                           else DoWork_loop t ls best_l)))
           else DoWork_loop t ls best_l))"

definition DoWork :: "Environment \<Rightarrow> CLightingPreviewThread \<Rightarrow> fault + CLightingPreviewThread" where
  "DoWork env t =
     (case m_pLightList t of
        None \<Rightarrow> Inr t
      | Some ls \<Rightarrow>
          (case DoWork_loop t ls None of
             Inl f \<Rightarrow> Inl f
           | Inr None \<Rightarrow> Inr t
           | Inr (Some best_l) \<Rightarrow>
               (case CalculateForLight env best_l t of
                  Inl f \<Rightarrow> Inl f
                | Inr t1 \<Rightarrow>
                    (case deref (m_pIncrementalLightInfoList t1) (m_pIncrementalInfo best_l) of
                       Inl f \<Rightarrow> Inl f
                     | Inr (a, l_info) \<Rightarrow>
                         (if m_fTotalContribution l_info \<noteq> 0
                          then Inr (t1\<lparr>m_bResultChangedSinceLastSend := True\<rparr>)
                          else Inr t1)))))"

text \<open>
  The loop of \<open>SendResult\<close> over the lights: each light's record is dereferenced; the
  sums into \<open>m_ResultImage\<close> are pixel data.
\<close>

fun SendResult_loop ::
  "CLightingPreviewThread \<Rightarrow> CLightingPreviewLightDescription list \<Rightarrow> fault + unit" where
  "SendResult_loop t [] = Inr ()"
| "SendResult_loop t (l # ls) =
     (case deref (m_pIncrementalLightInfoList t) (m_pIncrementalInfo l) of
        Inl f \<Rightarrow> Inl f
      | Inr (a, l_info) \<Rightarrow> SendResult_loop t ls)"

text \<open>
  \<open>SendVectorMatrixAsRendering\<close> applied to \<open>m_ResultImage\<close>, which has the dimensions of
  \<open>m_Albedos\<close>: the message it queues.
\<close>

definition SendVectorMatrixAsRendering :: "CLightingPreviewThread \<Rightarrow> MessageFromLPreview" where
  "SendVectorMatrixAsRendering t =
     LPREVIEW_MSG_DISPLAY_RESULT (m_nWidth (m_Albedos t), m_nHeight (m_Albedos t))
       (m_nBitmapGenerationCounter t)"

text \<open>
  \<open>SendResult\<close>. \<open>m_pLightList->Count()\<close> in the head of its loop is evaluated without a
  test of the pointer.
\<close>

definition SendResult ::
  "Environment \<Rightarrow> World \<Rightarrow> CLightingPreviewThread \<Rightarrow> fault + World \<times> CLightingPreviewThread" where
  "SendResult env w t =
     (case m_pLightList t of
        None \<Rightarrow> Inl NullLightList
      | Some ls \<Rightarrow>
          (case SendResult_loop t ls of
             Inl f \<Rightarrow> Inl f
           | Inr u \<Rightarrow>
               (let w1 = w\<lparr>events := events w @ [Queued (SendVectorMatrixAsRendering t)]\<rparr>;
                    (now, w2) = read_clock env w1
                in Inr (w2, t\<lparr>m_fLastSendTime := now, m_bResultChangedSinceLastSend := False\<rparr>))))"

text \<open>How a run of the thread ends, or stops being followed.\<close>

datatype status =
    Exited
  | Faulted fault
  | Blocked
  | OutOfFuel

text \<open>
  The inner \<open>while\<close> loop of \<open>Run\<close>. \<open>inbox\<close> holds the messages that \<open>WaitMessage\<close> will
  return, in order; when it is empty \<open>WaitMessage\<close> does not return. \<open>MessageWaiting()\<close> is
  evaluated only if \<open>!AnyUsefulWorkToDo()\<close> is false.
\<close>

fun Run_messages ::
  "Environment \<Rightarrow> bool \<Rightarrow> MessageToLPreview list \<Rightarrow> World \<Rightarrow> CLightingPreviewThread \<Rightarrow>
   status \<times> World + bool \<times> MessageToLPreview list \<times> World \<times> CLightingPreviewThread" where
  "Run_messages env should_quit inbox w t =
     (if should_quit then Inr (should_quit, inbox, w, t)
      else (case AnyUsefulWorkToDo t of
              Inl f \<Rightarrow> Inl (Faulted f, w)
            | Inr useful \<Rightarrow>
                (let (go, w1) = (if \<not> useful then (True, w)
                                 else (MessageWaiting env (polls w), w\<lparr>polls := polls w + 1\<rparr>))
                 in if \<not> go then Inr (should_quit, inbox, w1, t)
                    else (case inbox of
                            [] \<Rightarrow> Inl (Blocked, w1)
                          | msg_in # rest \<Rightarrow>
                              (let w2 = w1\<lparr>events := events w1 @ [Handled msg_in]\<rparr>
                               in case HandleAMessage env msg_in w2 t of
                                    Inl f \<Rightarrow> Inl (Faulted f, w2)
                                  | Inr (quit, w3, t1) \<Rightarrow>
                                      Run_messages env (should_quit \<or> quit) rest w3 t1)))))"

declare Run_messages.simps [simp del]

text \<open>
  The last statement of the body of \<open>Run\<close>'s outer loop: the \<open>if\<close> on
  \<open>m_bResultChangedSinceLastSend\<close>.
\<close>

definition Run_send ::
  "Environment \<Rightarrow> World \<Rightarrow> CLightingPreviewThread \<Rightarrow> fault + World \<times> CLightingPreviewThread" where
  "Run_send env w t =
     (if m_bResultChangedSinceLastSend t
      then (let (newtime, w1) = read_clock env w
            in case (if fsub env newtime (m_fLastSendTime t) > 10 then Inr True
                     else (case AnyUsefulWorkToDo t of Inl f \<Rightarrow> Inl f | Inr useful \<Rightarrow> Inr (\<not> useful))) of
                 Inl f \<Rightarrow> Inl f
               | Inr send \<Rightarrow>
                   (if send
                    then (case SendResult env w1 t of
                            Inl f \<Rightarrow> Inl f
                          | Inr (w2, t1) \<Rightarrow>
                              Inr (w2, t1\<lparr>m_bResultChangedSinceLastSend := False,
                                         m_fLastSendTime := newtime\<rparr>))
                    else Inr (w1, t)))
      else Inr (w, t))"

text \<open>
  The outer loop of \<open>Run\<close>, for at most the given number of iterations.
\<close>

fun Run_loop ::
  "nat \<Rightarrow> Environment \<Rightarrow> bool \<Rightarrow> MessageToLPreview list \<Rightarrow> World \<Rightarrow> CLightingPreviewThread \<Rightarrow>
   status \<times> World" where
  "Run_loop 0 env should_quit inbox w t = (if should_quit then (Exited, w) else (OutOfFuel, w))"
| "Run_loop (Suc n) env should_quit inbox w t =
     (if should_quit then (Exited, w)
      else (case Run_messages env should_quit inbox w t of
              Inl stop \<Rightarrow> stop
            | Inr (quit, inbox1, w1, t1) \<Rightarrow>
                (case (if \<not> quit
                       then (case AnyUsefulWorkToDo t1 of
                               Inl f \<Rightarrow> Inl f
                             | Inr useful \<Rightarrow> if useful then DoWork env t1 else Inr t1)
                       else Inr t1) of
                   Inl f \<Rightarrow> (Faulted f, w1)
                 | Inr t2 \<Rightarrow>
                     (case Run_send env w1 t2 of
                        Inl f \<Rightarrow> (Faulted f, w1)
                      | Inr (w2, t3) \<Rightarrow> Run_loop n env quit inbox1 w2 t3))))"

text \<open>
  The constructor of \<open>CLightingPreviewThread\<close>. It does not initialise the three vectors;
  \<open>uninit\<close> stands for what they hold.
\<close>

definition new_CLightingPreviewThread :: "Vector \<Rightarrow> CLightingPreviewThread" where
  "new_CLightingPreviewThread uninit =
     \<lparr>m_pLightList = None,
      m_Positions = [],
      m_Albedos = \<lparr>m_nWidth = 0, m_nHeight = 0\<rparr>,
      m_pRtEnv = None,
      m_pIncrementalLightInfoList = [],
      m_bAccStructureBuilt = False,
      m_LastEyePosition = uninit,
      m_bResultChangedSinceLastSend = False,
      m_fLastSendTime = - 1000000,
      m_nBitmapGenerationCounter = - 1,
      m_nContributionCounter = 1000000,
      m_MinViewCoords = uninit,
      m_MaxViewCoords = uninit\<rparr>"

text \<open>\<open>LightingPreviewThreadFN\<close>: construct the object and run it.\<close>

definition LightingPreviewThreadFN ::
  "nat \<Rightarrow> Environment \<Rightarrow> Vector \<Rightarrow> MessageToLPreview list \<Rightarrow> status \<times> World" where
  "LightingPreviewThreadFN fuel env uninit inbox =
     Run_loop fuel env False inbox \<lparr>clock_reads = 0, polls = 0, events = []\<rparr>
       (new_CLightingPreviewThread uninit)"

text \<open>
  The generation echo as a check of an event sequence: \<open>g\<close> is the generation of the last
  G-buffers message handled so far, if any; every display result queued after it
  carries that generation.
\<close>

fun generation_echo :: "int option \<Rightarrow> event list \<Rightarrow> bool" where
  "generation_echo g [] = True"
| "generation_echo g (Handled (LPREVIEW_MSG_G_BUFFERS width height positions eye gen) # es) =
     generation_echo (Some gen) es"
| "generation_echo g (Handled msg # es) = generation_echo g es"
| "generation_echo g (Queued (LPREVIEW_MSG_DISPLAY_RESULT bm gen) # es) =
     ((case g of None \<Rightarrow> True | Some g' \<Rightarrow> gen = g') \<and> generation_echo g es)"

subsection \<open>The shading kernel: one 4-pixel group of \<open>CalculateForLightTask\<close>\<close>

text \<open>
  A SIMD register holds four lanes. \<open>fltx4\<close> holds four floats, a comparison mask
  (all bits of a lane set or clear) holds four Booleans, \<open>HitIds\<close> holds four integers.
\<close>

type_synonym 'a x4 = "'a \<times> 'a \<times> 'a \<times> 'a"

type_synonym fltx4 = "real x4"

fun map4 :: "('a \<Rightarrow> 'b) \<Rightarrow> 'a x4 \<Rightarrow> 'b x4" where
  "map4 f (a, b, c, d) = (f a, f b, f c, f d)"

fun zip4 :: "('a \<Rightarrow> 'b \<Rightarrow> 'c) \<Rightarrow> 'a x4 \<Rightarrow> 'b x4 \<Rightarrow> 'c x4" where
  "zip4 f (a, b, c, d) (a', b', c', d') = (f a a', f b b', f c c', f d d')"

fun lane :: "'a x4 \<Rightarrow> nat \<Rightarrow> 'a" where
  "lane (a, b, c, d) i = (if i = 0 then a else if i = 1 then b else if i = 2 then c else d)"

definition ReplicateX4 :: "real \<Rightarrow> fltx4" where
  "ReplicateX4 v = (v, v, v, v)"

definition Four_Zeros :: fltx4 where
  "Four_Zeros = ReplicateX4 0"

datatype FourVectors = FourVectors (fx: fltx4) (fy: fltx4) (fz: fltx4)

definition DuplicateVector :: "Vector \<Rightarrow> FourVectors" where
  "DuplicateVector v = FourVectors (ReplicateX4 (vx v)) (ReplicateX4 (vy v)) (ReplicateX4 (vz v))"

record FourRays =
  origin :: FourVectors
  direction :: FourVectors

record RayTracingResult =
  HitIds :: "int x4"
  HitDistance :: fltx4

text \<open>
  The intrinsics on masks. \<open>_mm_cmplt_epi32\<close> and \<open>_mm_cmplt_ps\<close> compare lane by lane;
  \<open>_mm_andnot_si128( a, b )\<close> is \<open>(NOT a) AND b\<close>; \<open>AndNotSIMD( mask, v )\<close> clears the lanes of
  \<open>v\<close> where the mask is set and \<open>AndSIMD( v, mask )\<close> those where it is clear. A float
  with all bits clear is \<open>0\<close>.
\<close>

definition cmplt_epi32 :: "int x4 \<Rightarrow> int x4 \<Rightarrow> bool x4" where
  "cmplt_epi32 a b = zip4 (\<lambda>u v. u < v) a b"

definition cmplt_ps :: "fltx4 \<Rightarrow> fltx4 \<Rightarrow> bool x4" where
  "cmplt_ps a b = zip4 (\<lambda>u v. u < v) a b"

definition CmpGtSIMD :: "fltx4 \<Rightarrow> fltx4 \<Rightarrow> bool x4" where
  "CmpGtSIMD a b = zip4 (\<lambda>u v. u > v) a b"

definition andnot_si128 :: "bool x4 \<Rightarrow> bool x4 \<Rightarrow> bool x4" where
  "andnot_si128 a b = zip4 (\<lambda>u v. \<not> u \<and> v) a b"

definition AndNotSIMD :: "bool x4 \<Rightarrow> fltx4 \<Rightarrow> fltx4" where
  "AndNotSIMD m v = zip4 (\<lambda>u x. if u then 0 else x) m v"

definition AndSIMD :: "fltx4 \<Rightarrow> bool x4 \<Rightarrow> fltx4" where
  "AndSIMD v m = zip4 (\<lambda>x u. if u then x else 0) v m"

text \<open>
  \<open>IsAllZeros( OrSIMD( l_add.x, OrSIMD( l_add.y, l_add.z ) ) )\<close>: the bitwise OR of three
  floats compares equal to zero exactly if each of them is a zero.
\<close>

fun IsAllZeros :: "fltx4 \<Rightarrow> bool" where
  "IsAllZeros (a, b, c, d) = (a = 0 \<and> b = 0 \<and> c = 0 \<and> d = 0)"

definition IsAllZeros_or :: "FourVectors \<Rightarrow> bool" where
  "IsAllZeros_or v = (IsAllZeros (fx v) \<and> IsAllZeros (fy v) \<and> IsAllZeros (fz v))"

text \<open>
  The float literals of the kernel, as the floats they denote: \<open>0.02f\<close> is
  \<open>5368709 / 2^28\<close>, \<open>0.1f / 1024.0f\<close> is \<open>13421773 / 2^37\<close>, and \<open>1.0e9\<close> is a float.
\<close>

definition float_0_02 :: real where
  "float_0_02 = 5368709 / 2 ^ 28"

definition ThresholdBrightness :: fltx4 where
  "ThresholdBrightness = ReplicateX4 (13421773 / 2 ^ 37)"

text \<open>
  What the kernel calls and the sources do not contain: the arithmetic of mathlib's
  \<open>FourVectors\<close> (\<open>-=\<close>, \<open>length\<close>, \<open>*=\<close> by an \<open>fltx4\<close>, by a \<open>float\<close> and by a \<open>FourVectors\<close>,
  \<open>+=\<close>), \<open>ReciprocalSIMD\<close>, the light's \<open>ComputeLightAtPoints\<close> and the ray tracing
  environment's \<open>Trace4Rays\<close>.
\<close>

record Mathlib =
  fv_sub :: "FourVectors \<Rightarrow> FourVectors \<Rightarrow> FourVectors"
  fv_length :: "FourVectors \<Rightarrow> fltx4"
  ReciprocalSIMD :: "fltx4 \<Rightarrow> fltx4"
  fv_mul_fltx4 :: "FourVectors \<Rightarrow> fltx4 \<Rightarrow> FourVectors"
  fv_mul_float :: "FourVectors \<Rightarrow> real \<Rightarrow> FourVectors"
  fv_mul :: "FourVectors \<Rightarrow> FourVectors \<Rightarrow> FourVectors"
  fv_add :: "FourVectors \<Rightarrow> FourVectors \<Rightarrow> FourVectors"
  ComputeLightAtPoints ::
    "CLightingPreviewLightDescription \<Rightarrow> FourVectors \<Rightarrow> FourVectors \<Rightarrow> FourVectors \<Rightarrow> bool \<Rightarrow> FourVectors"
  Trace4Rays :: "FourRays \<Rightarrow> fltx4 \<Rightarrow> fltx4 \<Rightarrow> RayTracingResult"

text \<open>
  The result of the body of the \<open>x\<close> loop for one group: the value stored to
  \<open>rslt.CompoundElement( x, y )\<close>, the new \<open>ThisLinesTotalLight\<close>, and the arguments of the
  call of \<open>Trace4Rays\<close> (ray packet, \<open>TMin\<close>, \<open>TMax\<close>) if the call is made, together with
  \<open>len\<close>.
\<close>

record GroupResult =
  rslt_element :: FourVectors
  ThisLinesTotalLight :: FourVectors
  traced :: "(FourRays \<times> fltx4 \<times> fltx4) option"
  ray_len :: "fltx4 option"

definition shadow_mask :: "RayTracingResult \<Rightarrow> fltx4 \<Rightarrow> bool x4" where
  "shadow_mask r_rslt len =
     andnot_si128 (cmplt_epi32 (HitIds r_rslt) (0, 0, 0, 0)) (cmplt_ps (HitDistance r_rslt) len)"

definition CalculateForLightTask_group ::
  "Mathlib \<Rightarrow> CLightingPreviewLightDescription \<Rightarrow> FourVectors \<Rightarrow> FourVectors \<Rightarrow> FourVectors \<Rightarrow>
   FourVectors \<Rightarrow> GroupResult" where
  "CalculateForLightTask_group ml l pos normal albedo line_total =
     (let zero_vector = FourVectors Four_Zeros Four_Zeros Four_Zeros;
          l_add = ComputeLightAtPoints ml l pos normal zero_vector False
      in if \<not> IsAllZeros_or l_add
         then (let lpos = DuplicateVector (m_Position l);
                   direction0 = fv_sub ml lpos pos;
                   len = fv_length ml direction0;
                   direction1 = fv_mul_fltx4 ml direction0 (ReciprocalSIMD ml len);
                   origin1 = fv_add ml (fv_mul_float ml direction1 float_0_02) pos;
                   myray = \<lparr>origin = origin1, direction = direction1\<rparr>;
                   r_rslt = Trace4Rays ml myray Four_Zeros (ReplicateX4 1000000000);
                   mask = shadow_mask r_rslt len;
                   l_add1 = FourVectors (AndNotSIMD mask (fx l_add)) (AndNotSIMD mask (fy l_add))
                              (AndNotSIMD mask (fz l_add));
                   l_add2 = fv_mul ml l_add1 albedo;
                   l_add3 = FourVectors
                              (AndSIMD (fx l_add2) (CmpGtSIMD (fx l_add2) ThresholdBrightness))
                              (AndSIMD (fy l_add2) (CmpGtSIMD (fy l_add2) ThresholdBrightness))
                              (AndSIMD (fz l_add2) (CmpGtSIMD (fz l_add2) ThresholdBrightness))
               in \<lparr>rslt_element = l_add1,
                   ThisLinesTotalLight = fv_add ml line_total l_add3,
                   traced = Some (myray, Four_Zeros, ReplicateX4 1000000000),
                   ray_len = Some len\<rparr>)
         else \<lparr>rslt_element = l_add,
               ThisLinesTotalLight = line_total,
               traced = None,
               ray_len = None\<rparr>)"

subsection \<open>A loop invariant for the table of closest lines\<close>

text \<open>
  The invariant of \<open>closest_line_loop\<close> when the rows below \<open>bound\<close> have been checked:
  either no row below \<open>bound\<close> is in the mask and \<open>c\<close> is still the initial \<open>1000000\<close>, or
  \<open>c\<close> is the highest row below \<open>bound\<close> that is in the mask.
\<close>

definition nearest_below :: "32 word \<Rightarrow> int \<Rightarrow> int \<Rightarrow> bool" where
  "nearest_below lm bound c =
     ((c = 1000000 \<and> (\<forall>b. 0 \<le> b \<and> b < bound \<longrightarrow> \<not> bit lm (nat b))) \<or>
      (0 \<le> c \<and> c < bound \<and> bit lm (nat c) \<and> (\<forall>b. c < b \<and> b < bound \<longrightarrow> \<not> bit lm (nat b))))"

subsection \<open>Auxiliary notions for the properties\<close>

text \<open>
  The spec's tie rules for the priority of two records: the rule that decides the pair
  compares equal keys. Two new records tie on equal distances to the eye; two dark
  records (both \<open>m_fTotalContribution\<close> zero) among partial and discarded ones tie on
  equal time stamps; two lit partial records at most one level apart, and two
  discarded records that are not both dark, tie on equal contributions.
\<close>

definition priority_tie ::
  "CLightingPreviewThread \<Rightarrow> CIncrementalLightInfo \<Rightarrow> CIncrementalLightInfo \<Rightarrow> bool" where
  "priority_tie t a b =
     (IsHighPriority t a = IsHighPriority t b \<and>
      (if m_eIncrState a = INCR_STATE_NEW \<and> m_eIncrState b = INCR_STATE_NEW
       then m_fDistanceToEye a = m_fDistanceToEye b
       else if m_eIncrState a \<in> {INCR_STATE_PARTIAL_RESULTS, INCR_STATE_NO_RESULTS} \<and>
               m_eIncrState b \<in> {INCR_STATE_PARTIAL_RESULTS, INCR_STATE_NO_RESULTS}
       then (if m_fTotalContribution a = 0 \<and> m_fTotalContribution b = 0
             then m_nMostRecentNonZeroContributionTimeStamp a = m_nMostRecentNonZeroContributionTimeStamp b
             else if m_eIncrState a = INCR_STATE_PARTIAL_RESULTS \<and> m_eIncrState b = INCR_STATE_PARTIAL_RESULTS
             then m_fTotalContribution a \<noteq> 0 \<and> m_fTotalContribution b \<noteq> 0 \<and>
                  \<bar>m_PartialResultsStage a - m_PartialResultsStage b\<bar> \<le> 1 \<and>
                  m_fTotalContribution a = m_fTotalContribution b
             else if m_eIncrState a = INCR_STATE_NO_RESULTS \<and> m_eIncrState b = INCR_STATE_NO_RESULTS
             then m_fTotalContribution a = m_fTotalContribution b
             else False)
       else False))"

text \<open>Two partial records that are both dark.\<close>

definition both_dark_partial :: "CIncrementalLightInfo \<Rightarrow> CIncrementalLightInfo \<Rightarrow> bool" where
  "both_dark_partial a b =
     (m_eIncrState a = INCR_STATE_PARTIAL_RESULTS \<and> m_eIncrState b = INCR_STATE_PARTIAL_RESULTS
      \<and> m_fTotalContribution a = 0 \<and> m_fTotalContribution b = 0)"

text \<open>The record that a light's \<open>m_pIncrementalInfo\<close> points to, if the pointer is good.\<close>

definition light_record ::
  "CLightingPreviewLightDescription \<Rightarrow> CLightingPreviewThread \<Rightarrow> CIncrementalLightInfo option" where
  "light_record l t =
     (case deref (m_pIncrementalLightInfoList t) (m_pIncrementalInfo l) of
        Inl f \<Rightarrow> None
      | Inr (a, l_info) \<Rightarrow> Some l_info)"

text \<open>Two calls of \<open>DiscardResults\<close> in a row, with the clock readings of each.\<close>

definition DiscardResults_twice ::
  "Environment \<Rightarrow> real \<Rightarrow> real \<Rightarrow> CLightingPreviewThread \<Rightarrow> fault + CLightingPreviewThread" where
  "DiscardResults_twice env now1 now2 t =
     (case DiscardResults env now1 t of
        Inl f \<Rightarrow> Inl f
      | Inr t1 \<Rightarrow> DiscardResults env now2 t1)"

text \<open>
  The distance that the loop of \<open>DiscardResults\<close> leaves in the record at address \<open>b\<close>: that
  of the last light of the list that points to it, if any light does.
\<close>

fun final_distance ::
  "Environment \<Rightarrow> Vector \<Rightarrow> CLightingPreviewLightDescription list \<Rightarrow> nat \<Rightarrow> real option" where
  "final_distance env eye [] b = None"
| "final_distance env eye (l # ls) b =
     (case final_distance env eye ls b of
        Some d \<Rightarrow> Some d
      | None \<Rightarrow>
          (if m_pIncrementalInfo l = Some b
           then Some (if m_Type l = MATERIAL_LIGHT_DIRECTIONAL then 0
                      else DistTo env eye (m_Position l))
           else None))"

definition set_final_distance ::
  "Environment \<Rightarrow> Vector \<Rightarrow> CLightingPreviewLightDescription list \<Rightarrow>
   nat \<times> CIncrementalLightInfo \<Rightarrow> nat \<times> CIncrementalLightInfo" where
  "set_final_distance env eye ls = (\<lambda>(b, i).
     (b, case final_distance env eye ls b of None \<Rightarrow> i | Some d \<Rightarrow> i\<lparr>m_fDistanceToEye := d\<rparr>))"

text \<open>
  The generation of the last G-buffers message among the events, starting from \<open>g\<close>;
  whether an event is the handling of a G-buffers message; and the invariant of the
  run: the events so far echo the generation, and the thread's counter is that of the
  last G-buffers message handled.
\<close>

fun last_generation :: "int option \<Rightarrow> event list \<Rightarrow> int option" where
  "last_generation g [] = g"
| "last_generation g (Handled (LPREVIEW_MSG_G_BUFFERS width height positions eye gen) # es) =
     last_generation (Some gen) es"
| "last_generation g (e # es) = last_generation g es"

fun is_gbuffers :: "event \<Rightarrow> bool" where
  "is_gbuffers (Handled (LPREVIEW_MSG_G_BUFFERS width height positions eye gen)) = True"
| "is_gbuffers e = False"

definition echo_inv :: "World \<Rightarrow> CLightingPreviewThread \<Rightarrow> bool" where
  "echo_inv w t =
     (generation_echo None (events w) \<and>
      (\<forall>g. last_generation None (events w) = Some g \<longrightarrow> m_nBitmapGenerationCounter t = g))"

subsection \<open>Example inputs\<close>

text \<open>A light description as the host sends it, with the pointer to its record null.\<close>

definition example_light :: "LightType_t \<Rightarrow> Vector \<Rightarrow> int \<Rightarrow> CLightingPreviewLightDescription" where
  "example_light ty pos object_id =
     \<lparr>m_Type = ty, m_Position = pos, m_Color = Vector 1 1 1, m_nObjectID = object_id,
      m_pIncrementalInfo = None\<rparr>"

text \<open>
  An environment with exact arithmetic: the clock advances by 100 seconds between
  readings, no message is found waiting by a poll, and a kernel task returns \<open>out\<close> of
  its \<open>nLineMatch\<close>.
\<close>

definition example_env :: "(int \<Rightarrow> real) \<Rightarrow> Environment" where
  "example_env out =
     \<lparr>Plat_FloatTime = (\<lambda>n. 100 * real n),
      MessageWaiting = (\<lambda>n. False),
      DistTo = (\<lambda>p q. sqrt ((vx p - vx q)\<^sup>2 + (vy p - vy q)\<^sup>2 + (vz p - vz q)\<^sup>2)),
      fadd = (+),
      fsub = (-),
      fContributionOut = (\<lambda>t nLineMask nLineMatch l calc_mask. out nLineMatch)\<rparr>"

text \<open>Geometry, then G-buffers of generation 7, then a list of one point light.\<close>

definition example_inbox :: "MessageToLPreview list" where
  "example_inbox =
     [LPREVIEW_MSG_GEOM_DATA [Vector 0 0 5, Vector 1 0 5, Vector 0 1 5],
      LPREVIEW_MSG_G_BUFFERS 4 4 [Vector 0 0 0, Vector 1 1 0] (Vector 0 0 9) 7,
      LPREVIEW_MSG_LIGHT_DATA [example_light MATERIAL_LIGHT_POINT (Vector 0 0 9) 1] (Vector 0 0 9)]"

text \<open>
  A thread with one point light bound to a new record at address 0, and scene bounds
  from \<open>(-10, -10, -10)\<close> to \<open>(10, 10, 10)\<close>.
\<close>

definition example_light1 :: CLightingPreviewLightDescription where
  "example_light1 =
     (example_light MATERIAL_LIGHT_POINT (Vector 0 0 9) 1)\<lparr>m_pIncrementalInfo := Some 0\<rparr>"

definition example_thread :: CLightingPreviewThread where
  "example_thread =
     (new_CLightingPreviewThread (Vector 0 0 0))
       \<lparr>m_pLightList := Some [example_light1],
        m_Albedos := \<lparr>m_nWidth = 4, m_nHeight = 4\<rparr>,
        m_pIncrementalLightInfoList := [(0, new_CIncrementalLightInfo example_light1)],
        m_MinViewCoords := Vector (- 10) (- 10) (- 10),
        m_MaxViewCoords := Vector 10 10 10\<rparr>"

text \<open>
  Two partial records of lights outside the bounds, both dark: \<open>A\<close> at level 5 with the
  more recent time stamp, \<open>B\<close> at level 0.
\<close>

definition example_dark_A :: CIncrementalLightInfo where
  "example_dark_A =
     (new_CIncrementalLightInfo (example_light MATERIAL_LIGHT_POINT (Vector 100 0 0) 1))
       \<lparr>m_eIncrState := INCR_STATE_PARTIAL_RESULTS, m_PartialResultsStage := 5,
        m_nMostRecentNonZeroContributionTimeStamp := 1000001\<rparr>"

definition example_dark_B :: CIncrementalLightInfo where
  "example_dark_B =
     (new_CIncrementalLightInfo (example_light MATERIAL_LIGHT_POINT (Vector 0 100 0) 2))
       \<lparr>m_eIncrState := INCR_STATE_PARTIAL_RESULTS, m_PartialResultsStage := 0,
        m_nMostRecentNonZeroContributionTimeStamp := 1000000\<rparr>"

text \<open>The new record of a directional light whose position member lies within the bounds.\<close>

definition example_directional :: CIncrementalLightInfo where
  "example_directional =
     new_CIncrementalLightInfo (example_light MATERIAL_LIGHT_DIRECTIONAL (Vector 1 2 3) 3)"

text \<open>
  Exact arithmetic for the kernel, a light that adds 1 to every channel of every lane,
  and an empty scene, where no ray hits anything.
\<close>

definition fv_zip :: "(real \<Rightarrow> real \<Rightarrow> real) \<Rightarrow> FourVectors \<Rightarrow> FourVectors \<Rightarrow> FourVectors" where
  "fv_zip f a b = FourVectors (zip4 f (fx a) (fx b)) (zip4 f (fy a) (fy b)) (zip4 f (fz a) (fz b))"

definition example_mathlib :: Mathlib where
  "example_mathlib =
     \<lparr>fv_sub = fv_zip (-),
      fv_length = (\<lambda>a. zip4 (\<lambda>u (v, w). sqrt (u * u + v * v + w * w)) (fx a) (zip4 Pair (fy a) (fz a))),
      ReciprocalSIMD = map4 inverse,
      fv_mul_fltx4 = (\<lambda>a s. FourVectors (zip4 (*) (fx a) s) (zip4 (*) (fy a) s) (zip4 (*) (fz a) s)),
      fv_mul_float = (\<lambda>a c. FourVectors (map4 (\<lambda>v. v * c) (fx a)) (map4 (\<lambda>v. v * c) (fy a))
                                (map4 (\<lambda>v. v * c) (fz a))),
      fv_mul = fv_zip (*),
      fv_add = fv_zip (+),
      ComputeLightAtPoints = (\<lambda>l pos normal color half_lambert.
         fv_zip (+) color (FourVectors (ReplicateX4 1) (ReplicateX4 1) (ReplicateX4 1))),
      Trace4Rays = (\<lambda>rays TMin TMax. \<lparr>HitIds = (- 1, - 1, - 1, - 1), HitDistance = TMax\<rparr>)\<rparr>"

text \<open>
  The group of four pixels at the origin with normal \<open>+Z\<close> and white albedo, lit by a
  point light at \<open>(0, 0, 1)\<close>.
\<close>

definition example_group :: GroupResult where
  "example_group =
     CalculateForLightTask_group example_mathlib
       (example_light MATERIAL_LIGHT_POINT (Vector 0 0 1) 1)
       (FourVectors Four_Zeros Four_Zeros Four_Zeros)
       (FourVectors Four_Zeros Four_Zeros (ReplicateX4 1))
       (FourVectors (ReplicateX4 1) (ReplicateX4 1) (ReplicateX4 1))
       (FourVectors Four_Zeros Four_Zeros Four_Zeros)"


section \<open>Properties of the line schedule\<close>

lemma and_push_bit_iff_bit: "((w::32 word) AND push_bit n 1 \<noteq> 0) = bit w n"
  by (simp add: bit_iff_and_push_bit_not_eq_0)

lemma nearest_below_step:
  assumes inv: "nearest_below lm chk c" and c0: "0 \<le> chk" and le: "chk \<le> linemod" and small: "linemod < 500000"
  shows "nearest_below lm (chk + 1)
           (if lm AND push_bit (nat chk) 1 \<noteq> 0
            then (if \<bar>chk - linemod\<bar> < \<bar>c - linemod\<bar> then chk else c) else c)"
proof (cases "bit lm (nat chk)")
  case True
  have closer: "\<bar>chk - linemod\<bar> < \<bar>c - linemod\<bar>"
    using inv c0 le small unfolding nearest_below_def by auto
  have val: "(if lm AND push_bit (nat chk) 1 \<noteq> 0
            then (if \<bar>chk - linemod\<bar> < \<bar>c - linemod\<bar> then chk else c) else c) = chk"
    using True closer by (simp only: and_push_bit_iff_bit if_True)
  have "nearest_below lm (chk + 1) chk"
    using True c0 unfolding nearest_below_def by auto
  then show ?thesis
    by (simp only: val)
next
  case False
  have val: "(if lm AND push_bit (nat chk) 1 \<noteq> 0
            then (if \<bar>chk - linemod\<bar> < \<bar>c - linemod\<bar> then chk else c) else c) = c"
    using False by (simp only: and_push_bit_iff_bit if_False)
  from inv consider
      (none) "c = 1000000" "\<forall>b. 0 \<le> b \<and> b < chk \<longrightarrow> \<not> bit lm (nat b)"
    | (some) "0 \<le> c" "c < chk" "bit lm (nat c)" "\<forall>b. c < b \<and> b < chk \<longrightarrow> \<not> bit lm (nat b)"
    unfolding nearest_below_def by blast
  then have "nearest_below lm (chk + 1) c"
  proof cases
    case none
    have "\<not> bit lm (nat b)" if "0 \<le> b \<and> b < chk + 1" for b
    proof -
      from that have "b = chk \<or> (0 \<le> b \<and> b < chk)" by arith
      then show ?thesis using False none(2) by blast
    qed
    then show ?thesis
      using none(1) unfolding nearest_below_def by blast
  next
    case some
    have "\<not> bit lm (nat b)" if "c < b \<and> b < chk + 1" for b
    proof -
      from that have "b = chk \<or> (c < b \<and> b < chk)" by arith
      then show ?thesis using False some(4) by blast
    qed
    moreover have "c < chk + 1" using some(2) by simp
    ultimately show ?thesis
      using some(1,3) unfolding nearest_below_def by blast
  qed
  then show ?thesis
    by (simp only: val)
qed

lemma closest_line_loop_nearest:
  "nearest_below lm chk c \<Longrightarrow> 0 \<le> chk \<Longrightarrow> chk \<le> linemod + 1 \<Longrightarrow> linemod < 500000 \<Longrightarrow>
   nearest_below lm (linemod + 1) (closest_line_loop lm linemod chk c)"
proof (induction lm linemod chk c rule: closest_line_loop.induct)
  case (1 line_mask linemod chk closest_line)
  show ?case
  proof (cases "chk \<le> linemod")
    case True
    let ?c = "if line_mask AND push_bit (nat chk) 1 \<noteq> 0
            then (if \<bar>chk - linemod\<bar> < \<bar>closest_line - linemod\<bar> then chk else closest_line) else closest_line"
    have step: "nearest_below line_mask (chk + 1) ?c"
      using nearest_below_step [OF "1.prems"(1) "1.prems"(2) True "1.prems"(4)] .
    have "nearest_below line_mask (linemod + 1) (closest_line_loop line_mask linemod (chk + 1) ?c)"
      using "1.IH" [OF True step] "1.prems" True by simp
    then show ?thesis
      using True by (subst closest_line_loop.simps) simp
  next
    case False
    then have "chk = linemod + 1" using "1.prems" by simp
    then show ?thesis
      using "1.prems"(1) False by (subst closest_line_loop.simps) simp
  qed
qed

lemma m_LineMask_table [code]:
  "m_LineMask =
     [1, 65537, 65793, 16843009, 16843025, 17891601, 17895697, 286331153,
      286331157, 286593301, 286594325, 353703189, 353703253, 357897557,
      357913941, 1431655765, 1431655767, 1431786839, 1431787351, 1465341783,
      1465341815, 1467438967, 1467447159, 2004318071, 2004318079, 2004842367,
      2004844415, 2139062143, 2139062271, 2147450879, 2147483647, 4294967295]"
  by code_simp

lemma LineMask_steps:
  "list_all (\<lambda>k. bit_reverse_loop (of_nat k) 0 1 (drop_bit 1 (of_nat N_INCREMENTAL_STEPS))
                   = of_nat (spec_bit_reverse k)
                \<and> LineMask k = LineMask (k - 1) OR push_bit (spec_bit_reverse k) 1
                \<and> \<not> bit (LineMask (k - 1)) (spec_bit_reverse k)
                \<and> spec_bit_reverse k < 32) [1..<32]"
  by code_simp

lemma LineMask_bit0: "list_all (\<lambda>k. bit (LineMask k) 0) [0..<32]"
  by code_simp

lemma LineMask_ends:
  "LineMask 0 = push_bit (spec_bit_reverse 0) 1 \<and> spec_bit_reverse 0 = 0
   \<and> spec_bit_reverse 1 = N_INCREMENTAL_STEPS div 2
   \<and> spec_bit_reverse 2 = N_INCREMENTAL_STEPS div 4
   \<and> LineMask (N_INCREMENTAL_STEPS - 1) = mask 32"
  by code_simp

lemma or_bit_psubset:
  fixes x :: "32 word"
  assumes new: "\<not> bit x b" and small: "b < 32"
  shows "{i. bit x i} \<subset> {i. bit (x OR push_bit b 1) i}"
proof
  show "{i. bit x i} \<subseteq> {i. bit (x OR push_bit b 1) i}"
    by (auto simp: bit_or_iff)
  have "bit (x OR push_bit b 1) b"
    using small by (simp add: bit_or_iff bit_exp_iff)
  then show "{i. bit x i} \<noteq> {i. bit (x OR push_bit b 1) i}"
    using new by blast
qed

text \<open>
  Claim C6. For every level \<open>k\<close> from 1 to \<open>N - 1\<close>, the row computed by the source's
  bit-reversal loop is the reversal of the five low bits of \<open>k\<close>, \<open>m_LineMask[k]\<close> is
  \<open>m_LineMask[k-1]\<close> with the bit of that row set in addition, and the rows of
  \<open>m_LineMask[k-1]\<close> are a proper subset of those of \<open>m_LineMask[k]\<close>. Level 0 holds row 0
  only, level 1 adds row \<open>N/2\<close>, level 2 row \<open>N/4\<close>, and \<open>m_LineMask[N-1]\<close> has all \<open>N\<close> low
  bits set.
\<close>

theorem line_mask_monotone:
  "(\<forall>k \<in> {1..<N_INCREMENTAL_STEPS}.
      bit_reverse_loop (of_nat k) 0 1 (drop_bit 1 (of_nat N_INCREMENTAL_STEPS))
        = of_nat (spec_bit_reverse k)
      \<and> LineMask k = LineMask (k - 1) OR push_bit (spec_bit_reverse k) 1
      \<and> {i. bit (LineMask (k - 1)) i} \<subset> {i. bit (LineMask k) i})
   \<and> LineMask 0 = push_bit (spec_bit_reverse 0) 1
   \<and> spec_bit_reverse 0 = 0
   \<and> spec_bit_reverse 1 = N_INCREMENTAL_STEPS div 2
   \<and> spec_bit_reverse 2 = N_INCREMENTAL_STEPS div 4
   \<and> (\<forall>i < N_INCREMENTAL_STEPS. bit (LineMask (N_INCREMENTAL_STEPS - 1)) i)"
proof -
  have steps: "\<forall>k \<in> set [1..<32].
      bit_reverse_loop (of_nat k) 0 1 (drop_bit 1 (of_nat N_INCREMENTAL_STEPS)) = of_nat (spec_bit_reverse k)
      \<and> LineMask k = LineMask (k - 1) OR push_bit (spec_bit_reverse k) 1
      \<and> \<not> bit (LineMask (k - 1)) (spec_bit_reverse k)
      \<and> spec_bit_reverse k < 32"
    using LineMask_steps by (simp only: list_all_iff)
  have part1: "\<forall>k \<in> {1..<N_INCREMENTAL_STEPS}.
      bit_reverse_loop (of_nat k) 0 1 (drop_bit 1 (of_nat N_INCREMENTAL_STEPS))
        = of_nat (spec_bit_reverse k)
      \<and> LineMask k = LineMask (k - 1) OR push_bit (spec_bit_reverse k) 1
      \<and> {i. bit (LineMask (k - 1)) i} \<subset> {i. bit (LineMask k) i}"
  proof
    fix k assume "k \<in> {1..<N_INCREMENTAL_STEPS}"
    then have k: "k \<in> set [1..<32]" by (simp add: N_INCREMENTAL_STEPS_def)
    from steps k have rev: "bit_reverse_loop (of_nat k) 0 1 (drop_bit 1 (of_nat N_INCREMENTAL_STEPS))
        = of_nat (spec_bit_reverse k)"
      and eq: "LineMask k = LineMask (k - 1) OR push_bit (spec_bit_reverse k) 1"
      and new: "\<not> bit (LineMask (k - 1)) (spec_bit_reverse k)"
      and small: "spec_bit_reverse k < 32"
      by blast+
    have "{i. bit (LineMask (k - 1)) i} \<subset> {i. bit (LineMask (k - 1) OR push_bit (spec_bit_reverse k) 1) i}"
      using new small by (rule or_bit_psubset)
    then have "{i. bit (LineMask (k - 1)) i} \<subset> {i. bit (LineMask k) i}"
      by (simp only: eq [symmetric])
    with rev eq show "bit_reverse_loop (of_nat k) 0 1 (drop_bit 1 (of_nat N_INCREMENTAL_STEPS))
        = of_nat (spec_bit_reverse k)
      \<and> LineMask k = LineMask (k - 1) OR push_bit (spec_bit_reverse k) 1
      \<and> {i. bit (LineMask (k - 1)) i} \<subset> {i. bit (LineMask k) i}"
      by blast
  qed
  have full: "\<forall>i < N_INCREMENTAL_STEPS. bit (LineMask (N_INCREMENTAL_STEPS - 1)) i"
    using LineMask_ends by (simp add: N_INCREMENTAL_STEPS_def bit_mask_iff)
  show ?thesis
    using part1 full LineMask_ends by blast
qed

text \<open>The claim at level 1, and the highest bit of the last mask.\<close>

theorem line_mask_monotone_witness:
  "(1::nat) \<in> {1..<N_INCREMENTAL_STEPS}
   \<and> LineMask 1 = LineMask (1 - 1) OR push_bit (spec_bit_reverse 1) 1
   \<and> {i. bit (LineMask (1 - 1)) i} \<subset> {i. bit (LineMask 1) i}
   \<and> (31::nat) < N_INCREMENTAL_STEPS \<and> bit (LineMask (N_INCREMENTAL_STEPS - 1)) 31"
proof -
  have in1: "(1::nat) \<in> {1..<N_INCREMENTAL_STEPS}" and lt: "(31::nat) < N_INCREMENTAL_STEPS"
    by (simp_all add: N_INCREMENTAL_STEPS_def)
  from line_mask_monotone in1
  have "LineMask 1 = LineMask (1 - 1) OR push_bit (spec_bit_reverse 1) 1
        \<and> {i. bit (LineMask (1 - 1)) i} \<subset> {i. bit (LineMask 1) i}"
    by blast
  moreover from line_mask_monotone lt have "bit (LineMask (N_INCREMENTAL_STEPS - 1)) 31"
    by blast
  ultimately show ?thesis
    using in1 lt by blast
qed

text \<open>
  Claim C2, as amended. For every level \<open>lvl\<close> and every row offset \<open>m\<close> below \<open>N\<close>, the
  entry \<open>m_ClosestLineOffset[lvl][m]\<close> is a row of \<open>m_LineMask[lvl]\<close> that is not above \<open>m\<close>,
  and it is the highest such row: among the rows of the mask at or below \<open>m\<close> it is the
  nearest to \<open>m\<close>. Rows of the mask above \<open>m\<close> are not considered.
\<close>

theorem closest_line_nearest_at_or_below:
  assumes lvl: "lvl < N_INCREMENTAL_STEPS" and m: "m < N_INCREMENTAL_STEPS"
  shows "\<exists>c. ClosestLineOffset lvl m = Some (int c) \<and> c \<le> m \<and> bit (LineMask lvl) c
             \<and> (\<forall>b. b \<le> m \<and> bit (LineMask lvl) b \<longrightarrow> b \<le> c \<and> \<bar>int c - int m\<bar> \<le> \<bar>int b - int m\<bar>)"
proof -
  let ?lm = "LineMask lvl"
  let ?r = "closest_line_loop ?lm (int m) 0 1000000"
  have "nearest_below ?lm 0 1000000"
    unfolding nearest_below_def by auto
  then have nb: "nearest_below ?lm (int m + 1) ?r"
    using m by (intro closest_line_loop_nearest) (simp_all add: N_INCREMENTAL_STEPS_def)
  have "lvl \<in> set [0..<32]" using lvl by (simp add: N_INCREMENTAL_STEPS_def)
  then have bit0: "bit ?lm 0"
    using LineMask_bit0 by (simp only: list_all_iff)
  have "\<not> (\<forall>b. 0 \<le> b \<and> b < int m + 1 \<longrightarrow> \<not> bit ?lm (nat b))"
    using bit0 by (auto intro: exI [of _ 0])
  with nb have r: "0 \<le> ?r" "?r < int m + 1" "bit ?lm (nat ?r)"
    and above: "\<forall>b. ?r < b \<and> b < int m + 1 \<longrightarrow> \<not> bit ?lm (nat b)"
    unfolding nearest_below_def by blast+
  have greatest: "b \<le> nat ?r" if "b \<le> m" "bit ?lm b" for b
  proof (rule ccontr)
    assume "\<not> b \<le> nat ?r"
    then have "?r < int b \<and> int b < int m + 1" using that(1) r(1) by linarith
    with above have "\<not> bit ?lm (nat (int b))" by blast
    with that(2) show False by simp
  qed
  have "ClosestLineOffset lvl m = Some (int (nat ?r))"
    using lvl m r(1) by (simp add: ClosestLineOffset_def)
  moreover have "nat ?r \<le> m" using r(1,2) by linarith
  moreover have "\<forall>b. b \<le> m \<and> bit ?lm b \<longrightarrow> b \<le> nat ?r \<and> \<bar>int (nat ?r) - int m\<bar> \<le> \<bar>int b - int m\<bar>"
    using greatest r(1,2) by fastforce
  ultimately show ?thesis
    using r(3) by blast
qed

text \<open>The amended claim at level 1 and row offset 15.\<close>

theorem closest_line_nearest_at_or_below_witness:
  "(1::nat) < N_INCREMENTAL_STEPS \<and> (15::nat) < N_INCREMENTAL_STEPS
   \<and> (\<exists>c. ClosestLineOffset 1 15 = Some (int c) \<and> c \<le> 15 \<and> bit (LineMask 1) c
             \<and> (\<forall>b. b \<le> 15 \<and> bit (LineMask 1) b \<longrightarrow> b \<le> c \<and> \<bar>int c - int 15\<bar> \<le> \<bar>int b - int 15\<bar>))"
proof -
  have a: "(1::nat) < N_INCREMENTAL_STEPS" and b: "(15::nat) < N_INCREMENTAL_STEPS"
    by (simp_all add: N_INCREMENTAL_STEPS_def)
  show ?thesis
    using a b closest_line_nearest_at_or_below [OF a b] by blast
qed

text \<open>
  Claim C2 as stated fails at level 1 and row offset 15: the mask holds rows 0 and 16,
  the row nearest to 15 among all of them is 16, and the table holds 0.
\<close>

theorem closest_line_argmin_counterexample:
  "ClosestLineOffset 1 15 = Some 0 \<and> spec_closest_line (LineMask 1) 15 = 16
   \<and> ClosestLineOffset 1 15 \<noteq> Some (int (spec_closest_line (LineMask 1) 15))"
  by code_simp

section \<open>Properties of the priority order\<close>

lemma IsHighPriority_iff:
  "IsHighPriority pLPV this =
     (m_eIncrState this = INCR_STATE_NEW \<and>
      WithinAABox (m_Position (m_pLight this)) (m_MinViewCoords pLPV) (m_MaxViewCoords pLPV))"
  by (simp add: IsHighPriority_def)

text \<open>
  Outside one case the order is antisymmetric. Two records that are not finished are
  never each of lower priority than the other, unless both are partial and dark; and
  if neither has a negative contribution and no tie rule applies, one of them is of
  lower priority than the other.
\<close>

lemma priority_not_both:
  assumes "m_eIncrState a \<noteq> INCR_STATE_HAVE_FULL_RESULTS" "m_eIncrState b \<noteq> INCR_STATE_HAVE_FULL_RESULTS"
    and "\<not> both_dark_partial a b"
  shows "\<not> (IsLowerPriorityThan t a b \<and> IsLowerPriorityThan t b a)"
  using assms
  by (cases "m_eIncrState a"; cases "m_eIncrState b")
     (auto simp: IsLowerPriorityThan_def IsHighPriority_iff both_dark_partial_def Let_def)

lemma priority_one_lower:
  assumes "m_eIncrState a \<noteq> INCR_STATE_HAVE_FULL_RESULTS" "m_eIncrState b \<noteq> INCR_STATE_HAVE_FULL_RESULTS"
    and "0 \<le> m_fTotalContribution a" "0 \<le> m_fTotalContribution b"
    and "\<not> priority_tie t a b"
  shows "IsLowerPriorityThan t a b \<or> IsLowerPriorityThan t b a"
  using assms
  by (cases "m_eIncrState a"; cases "m_eIncrState b")
     (auto simp: IsLowerPriorityThan_def IsHighPriority_iff priority_tie_def Let_def)

text \<open>
  Claim C1. The claim asks that of two unfinished records outside the tie rules exactly
  one is of lower priority than the other. The source's case of two partial records
  returns early only when the other record is the more recently lit of two dark ones,
  and otherwise falls through to the comparison of levels. For the dark partial
  records \<open>A\<close> (level 5, time stamp 1000001) and \<open>B\<close> (level 0, time stamp 1000000), whose
  time stamps differ, each is of lower priority than the other.
\<close>

theorem priority_both_lower:
  "IsLowerPriorityThan example_thread example_dark_A example_dark_B
   \<and> IsLowerPriorityThan example_thread example_dark_B example_dark_A
   \<and> m_eIncrState example_dark_A = INCR_STATE_PARTIAL_RESULTS
   \<and> m_eIncrState example_dark_B = INCR_STATE_PARTIAL_RESULTS
   \<and> m_fTotalContribution example_dark_A = 0 \<and> m_fTotalContribution example_dark_B = 0
   \<and> m_nMostRecentNonZeroContributionTimeStamp example_dark_A
       > m_nMostRecentNonZeroContributionTimeStamp example_dark_B"
  by (simp add: IsLowerPriorityThan_def IsHighPriority_def example_dark_A_def example_dark_B_def
      new_CIncrementalLightInfo_def)

text \<open>
  Claim C9, as amended. \<open>IsHighPriority\<close> holds exactly if the record's state is new and
  the position of its light lies within the scene bounds. The type of the light is
  not consulted: replacing it changes nothing.
\<close>

theorem IsHighPriority_ignores_type:
  "IsHighPriority pLPV this =
     (m_eIncrState this = INCR_STATE_NEW \<and>
      WithinAABox (m_Position (m_pLight this)) (m_MinViewCoords pLPV) (m_MaxViewCoords pLPV))
   \<and> IsHighPriority pLPV (this\<lparr>m_pLight := (m_pLight this)\<lparr>m_Type := ty\<rparr>\<rparr>) = IsHighPriority pLPV this"
  by (simp add: IsHighPriority_def)

text \<open>
  Claim C9 as stated fails for a directional light: the new record of a directional
  light whose position member is \<open>(1, 2, 3)\<close> is of high priority within the bounds
  \<open>(-10, -10, -10)\<close> to \<open>(10, 10, 10)\<close>.
\<close>

theorem IsHighPriority_directional_counterexample:
  "m_Type (m_pLight example_directional) = MATERIAL_LIGHT_DIRECTIONAL
   \<and> IsHighPriority example_thread example_directional"
  by (simp add: IsHighPriority_def WithinAABox_def example_directional_def example_thread_def
      example_light_def new_CIncrementalLightInfo_def new_CLightingPreviewThread_def)

section \<open>Properties of the bookkeeping after a kernel run\<close>

lemma CalculateForLight_accum_fields:
  "m_fTotalContribution (CalculateForLight_accum add counter lvl total_light i) = foldl add 0 total_light"
  "m_PartialResultsStage (CalculateForLight_accum add counter lvl total_light i) = lvl"
  "m_eIncrState (CalculateForLight_accum add counter lvl total_light i) =
     (if lvl = int N_INCREMENTAL_STEPS - 1 then INCR_STATE_HAVE_FULL_RESULTS else INCR_STATE_PARTIAL_RESULTS)"
  "m_CalculatedContribution (CalculateForLight_accum add counter lvl total_light i) =
     (if foldl add 0 total_light = 0 then SetSize 0 0 (m_CalculatedContribution i)
      else m_CalculatedContribution i)"
  "m_nMostRecentNonZeroContributionTimeStamp (CalculateForLight_accum add counter lvl total_light i) =
     (if foldl add 0 total_light = 0 then m_nMostRecentNonZeroContributionTimeStamp i else counter)"
  "m_fDistanceToEye (CalculateForLight_accum add counter lvl total_light i) = m_fDistanceToEye i"
  "m_pLight (CalculateForLight_accum add counter lvl total_light i) = m_pLight i"
  "m_nObjectID_info (CalculateForLight_accum add counter lvl total_light i) = m_nObjectID_info i"
  by (simp_all add: CalculateForLight_accum_def Let_def)

lemma map_of_update_at:
  "map_of (update_at a f infos) b =
     (if b = a then map_option f (map_of infos b) else map_of infos b)"
  by (induction infos) (auto simp: update_at_def)

lemma deref_Some:
  "deref infos p = Inr (a, i) \<longleftrightarrow> p = Some a \<and> map_of infos a = Some i"
  by (auto simp: deref_def split: option.splits)

lemma deref_update_at:
  "deref infos p = Inr (a, i) \<Longrightarrow> deref (update_at a f infos) p = Inr (a, f i)"
  by (simp add: deref_Some map_of_update_at)

lemma fst_update_at: "map fst (update_at a f infos) = map fst infos"
  by (induction infos) (auto simp: update_at_def)

text \<open>
  \<open>CalculateForLight\<close> returns for a light whose record exists and, if partial, is below
  the last level.
\<close>

lemma CalculateForLight_returns:
  assumes ptr: "deref (m_pIncrementalLightInfoList t) (m_pIncrementalInfo l) = Inr (a, i)"
    and lvl: "m_eIncrState i = INCR_STATE_PARTIAL_RESULTS \<longrightarrow>
              0 \<le> m_PartialResultsStage i \<and> m_PartialResultsStage i < int N_INCREMENTAL_STEPS - 1"
  shows "\<exists>t'. CalculateForLight env l t = Inr t'"
  using assms
  by (auto simp: CalculateForLight_def Let_def m_LineMask_at_def N_INCREMENTAL_STEPS_def
      split: sum.splits)

text \<open>
  Claim C3, as amended. After the four-way fan-out for a light, the four returned
  magnitudes are added up into \<open>m_fTotalContribution\<close>. The global counter keeps its
  value. The level becomes the previous level plus one if the record was partial and
  0 otherwise, and the state becomes full if the new level is \<open>N - 1\<close> and partial
  otherwise, whatever the sum is. If the sum is zero the contribution matrix is released and the
  time stamp is kept; if it is not zero the matrix has the dimensions of the albedo
  image and the time stamp is the current value of the counter.
\<close>

theorem CalculateForLight_bookkeeping:
  assumes run: "CalculateForLight env l t = Inr t'"
    and ptr: "deref (m_pIncrementalLightInfoList t) (m_pIncrementalInfo l) = Inr (a, i)"
  shows "\<exists>t2 calc_mask i'.
      deref (m_pIncrementalLightInfoList t') (m_pIncrementalInfo l) = Inr (a, i')
    \<and> m_fTotalContribution i' = foldl (fadd env) 0 (ExecuteParallel env t2 l calc_mask)
    \<and> m_nContributionCounter t' = m_nContributionCounter t
    \<and> m_PartialResultsStage i' =
        (if m_eIncrState i = INCR_STATE_PARTIAL_RESULTS then 1 + m_PartialResultsStage i else 0)
    \<and> m_eIncrState i' =
        (if m_PartialResultsStage i' = int N_INCREMENTAL_STEPS - 1
         then INCR_STATE_HAVE_FULL_RESULTS else INCR_STATE_PARTIAL_RESULTS)
    \<and> (m_fTotalContribution i' = 0 \<longrightarrow>
          m_CalculatedContribution i' = \<lparr>m_nWidth = 0, m_nHeight = 0\<rparr>
          \<and> m_nMostRecentNonZeroContributionTimeStamp i' = m_nMostRecentNonZeroContributionTimeStamp i)
    \<and> (m_fTotalContribution i' \<noteq> 0 \<longrightarrow>
          m_CalculatedContribution i' = m_Albedos t
          \<and> m_nMostRecentNonZeroContributionTimeStamp i' = m_nContributionCounter t)"
proof -
  define t1 where "t1 = (if m_pRtEnv t \<noteq> None \<and> \<not> m_bAccStructureBuilt t
                then t\<lparr>m_bAccStructureBuilt := True\<rparr> else t)"
  have t1_infos: "m_pIncrementalLightInfoList t1 = m_pIncrementalLightInfoList t"
    and t1_counter: "m_nContributionCounter t1 = m_nContributionCounter t"
    and t1_albedos: "m_Albedos t1 = m_Albedos t"
    by (simp_all add: t1_def)
  define resize where "resize = (\<lambda>j :: CIncrementalLightInfo. j\<lparr>m_CalculatedContribution :=
       SetSize (m_nWidth (m_Albedos t1)) (m_nHeight (m_Albedos t1)) (m_CalculatedContribution j)\<rparr>)"
  define t2 where "t2 = t1\<lparr>m_pIncrementalLightInfoList :=
       update_at a resize (m_pIncrementalLightInfoList t1)\<rparr>"
  define lvl where "lvl = (if m_eIncrState i = INCR_STATE_PARTIAL_RESULTS then 1 + m_PartialResultsStage i else 0)"
  from run ptr obtain calc_mask where
    t': "t' = t2\<lparr>m_pIncrementalLightInfoList :=
                  update_at a (CalculateForLight_accum (fadd env) (m_nContributionCounter t2) lvl
                     (ExecuteParallel env t2 l calc_mask))
                    (m_pIncrementalLightInfoList t2)\<rparr>"
    unfolding CalculateForLight_def Let_def t1_def [symmetric] t1_infos
    by (auto simp: t2_def resize_def lvl_def t1_infos split: sum.splits if_splits)
  let ?tl = "ExecuteParallel env t2 l calc_mask"
  let ?i' = "CalculateForLight_accum (fadd env) (m_nContributionCounter t2) lvl ?tl (resize i)"
  have d2: "deref (m_pIncrementalLightInfoList t2) (m_pIncrementalInfo l) = Inr (a, resize i)"
    using ptr by (simp add: t2_def t1_infos deref_update_at)
  have d': "deref (m_pIncrementalLightInfoList t') (m_pIncrementalInfo l) = Inr (a, ?i')"
    using d2 by (simp add: t' deref_update_at)
  have counter: "m_nContributionCounter t' = m_nContributionCounter t"
    and counter2: "m_nContributionCounter t2 = m_nContributionCounter t"
    by (simp_all add: t' t2_def t1_counter)
  have resized: "m_CalculatedContribution (resize i) = m_Albedos t"
    by (simp add: resize_def SetSize_def t1_albedos)
  have ts: "m_nMostRecentNonZeroContributionTimeStamp (resize i) = m_nMostRecentNonZeroContributionTimeStamp i"
    by (simp add: resize_def)
  show ?thesis
    apply (rule exI [of _ t2], rule exI [of _ calc_mask], rule exI [of _ ?i'])
    using d' counter
    by (simp add: CalculateForLight_accum_fields counter2 resized ts lvl_def SetSize_def)
qed

text \<open>The amended claim for the new light of the example thread and a kernel that returns 1, 0, 0, 0.\<close>

theorem CalculateForLight_bookkeeping_witness:
  "\<exists>t'. CalculateForLight (example_env (\<lambda>n. if n = 0 then 1 else 0)) example_light1 example_thread = Inr t'
     \<and> deref (m_pIncrementalLightInfoList example_thread) (m_pIncrementalInfo example_light1)
         = Inr (0, new_CIncrementalLightInfo example_light1)
     \<and> m_nContributionCounter t' = m_nContributionCounter example_thread
     \<and> (\<exists>i'. light_record example_light1 t' = Some i'
           \<and> m_PartialResultsStage i' = 0
           \<and> m_eIncrState i' = INCR_STATE_PARTIAL_RESULTS)"
proof -
  let ?env = "example_env (\<lambda>n. if n = 0 then 1 else 0)"
  have ptr: "deref (m_pIncrementalLightInfoList example_thread) (m_pIncrementalInfo example_light1)
               = Inr (0, new_CIncrementalLightInfo example_light1)"
    by (simp add: example_thread_def example_light1_def deref_def)
  have "m_eIncrState (new_CIncrementalLightInfo example_light1) = INCR_STATE_PARTIAL_RESULTS \<longrightarrow>
        0 \<le> m_PartialResultsStage (new_CIncrementalLightInfo example_light1) \<and>
        m_PartialResultsStage (new_CIncrementalLightInfo example_light1) < int N_INCREMENTAL_STEPS - 1"
    by (simp add: new_CIncrementalLightInfo_def)
  from CalculateForLight_returns [OF ptr this]
  obtain t' where run: "CalculateForLight ?env example_light1 example_thread = Inr t'"
    by blast
  from CalculateForLight_bookkeeping [OF run ptr]
  obtain i' where "deref (m_pIncrementalLightInfoList t') (m_pIncrementalInfo example_light1) = Inr (0, i')"
    and "m_nContributionCounter t' = m_nContributionCounter example_thread"
    and "m_PartialResultsStage i' = 0"
    and "m_eIncrState i' = INCR_STATE_PARTIAL_RESULTS"
    by (auto simp: new_CIncrementalLightInfo_def N_INCREMENTAL_STEPS_def)
  then show ?thesis
    using run ptr by (auto simp: light_record_def)
qed

text \<open>
  Claim C3 as stated fails on both branches. With a sum of zero the state of the new
  record changes to partial, although the claim lets nothing but the matrix change.
  With a sum that is not zero the time stamp is the counter's value 1000000, not the
  incremented 1000001, and the counter is 1000000 afterwards.
\<close>

theorem CalculateForLight_bookkeeping_counterexample:
  "map_option m_eIncrState (light_record example_light1 example_thread) = Some INCR_STATE_NEW
   \<and> m_nContributionCounter example_thread = 1000000
   \<and> map_sum id (\<lambda>t'. map_option (\<lambda>i. (m_fTotalContribution i, m_eIncrState i))
                          (light_record example_light1 t'))
       (CalculateForLight (example_env (\<lambda>n. 0)) example_light1 example_thread)
     = Inr (Some (0, INCR_STATE_PARTIAL_RESULTS))
   \<and> map_sum id (\<lambda>t'. (map_option (\<lambda>i. (m_fTotalContribution i,
                                            m_nMostRecentNonZeroContributionTimeStamp i))
                           (light_record example_light1 t'),
                         m_nContributionCounter t'))
       (CalculateForLight (example_env (\<lambda>n. if n = 0 then 1 else 0)) example_light1 example_thread)
     = Inr (Some (1, 1000000), 1000000)"
  by (simp add: CalculateForLight_def CalculateForLight_accum_def ExecuteParallel_def
      example_env_def example_thread_def example_light1_def example_light_def
      new_CLightingPreviewThread_def new_CIncrementalLightInfo_def light_record_def
      deref_def update_at_def m_LineMask_at_def N_INCREMENTAL_STEPS_def SetSize_def Let_def)

section \<open>Properties of discarding results\<close>

lemma deref_ok_iff:
  "(\<exists>a i. deref xs p = Inr (a, i)) = (\<exists>a. p = Some a \<and> a \<in> fst ` set xs)"
proof -
  have key: "\<And>a. (\<exists>i. map_of xs a = Some i) = (a \<in> fst ` set xs)"
    by (metis domIff dom_map_of_conv_image_fst not_None_eq)
  show ?thesis
  proof (cases p)
    case None
    then show ?thesis by (simp add: deref_def)
  next
    case (Some a)
    have "(\<exists>b i. deref xs (Some a) = Inr (b, i)) = (\<exists>i. map_of xs a = Some i)"
      by (auto simp: deref_def split: option.splits)
    then show ?thesis
      using Some key by simp
  qed
qed

lemma deref_keys:
  assumes "map fst xs = map fst ys"
  shows "(\<exists>a i. deref xs p = Inr (a, i)) = (\<exists>a i. deref ys p = Inr (a, i))"
proof -
  from assms have "fst ` set xs = fst ` set ys"
    by (metis set_map)
  then show ?thesis
    by (simp only: deref_ok_iff)
qed

lemma DiscardResults_distances_map:
  "DiscardResults_distances env eye ls infos = Inr infos' \<Longrightarrow>
   infos' = map (set_final_distance env eye ls) infos"
proof (induction ls arbitrary: infos)
  case Nil
  then show ?case by (simp add: set_final_distance_def)
next
  case (Cons l ls)
  from Cons.prems obtain a i where d: "deref infos (m_pIncrementalInfo l) = Inr (a, i)"
    by (auto split: sum.splits)
  let ?w = "\<lambda>i. if m_Type l = MATERIAL_LIGHT_DIRECTIONAL
                    then i\<lparr>m_fDistanceToEye := 0\<rparr>
                    else i\<lparr>m_fDistanceToEye := DistTo env eye (m_Position l)\<rparr>"
  from Cons.prems d have "DiscardResults_distances env eye ls (update_at a ?w infos) = Inr infos'"
    by simp
  then have "infos' = map (set_final_distance env eye ls) (update_at a ?w infos)"
    by (rule Cons.IH)
  also have "\<dots> = map (set_final_distance env eye (l # ls)) infos"
    using d by (auto simp: update_at_def set_final_distance_def deref_Some split: option.splits)
  finally show ?case .
qed

lemma DiscardResults_distances_keys:
  "map fst xs = map fst ys \<Longrightarrow> DiscardResults_distances env eye ls xs = Inr xs' \<Longrightarrow>
   \<exists>ys'. DiscardResults_distances env eye ls ys = Inr ys'"
proof (induction ls arbitrary: xs ys xs')
  case Nil
  then show ?case by simp
next
  case (Cons l ls)
  from Cons.prems(2) obtain a i where d: "deref xs (m_pIncrementalInfo l) = Inr (a, i)"
    by (auto split: sum.splits)
  with deref_keys [OF Cons.prems(1), of "m_pIncrementalInfo l"]
  obtain a' i' where d': "deref ys (m_pIncrementalInfo l) = Inr (a', i')"
    by blast
  from d d' have aa: "a' = a" by (simp add: deref_Some)
  let ?w = "\<lambda>i. if m_Type l = MATERIAL_LIGHT_DIRECTIONAL
                    then i\<lparr>m_fDistanceToEye := 0\<rparr>
                    else i\<lparr>m_fDistanceToEye := DistTo env eye (m_Position l)\<rparr>"
  have keys: "map fst (update_at a ?w xs) = map fst (update_at a ?w ys)"
    using Cons.prems(1) by (simp add: fst_update_at)
  from Cons.prems(2) d have "DiscardResults_distances env eye ls (update_at a ?w xs) = Inr xs'"
    by simp
  from Cons.IH [OF keys this] show ?case
    using d' aa by simp
qed

lemma CIncrementalLightInfo_DiscardResults_idem:
  "CIncrementalLightInfo_DiscardResults (CIncrementalLightInfo_DiscardResults i)
   = CIncrementalLightInfo_DiscardResults i"
  by (simp add: CIncrementalLightInfo_DiscardResults_def SetSize_def Let_def)

lemma CIncrementalLightInfo_DiscardResults_distance:
  "CIncrementalLightInfo_DiscardResults (i\<lparr>m_fDistanceToEye := d\<rparr>)
   = (CIncrementalLightInfo_DiscardResults i)\<lparr>m_fDistanceToEye := d\<rparr>"
  by (simp add: CIncrementalLightInfo_DiscardResults_def SetSize_def Let_def)

lemma discard_pass_idem:
  "map (set_final_distance env eye ls)
     (map (\<lambda>(a, i). (a, CIncrementalLightInfo_DiscardResults i))
        (map (set_final_distance env eye ls)
           (map (\<lambda>(a, i). (a, CIncrementalLightInfo_DiscardResults i)) infos)))
   = map (set_final_distance env eye ls)
       (map (\<lambda>(a, i). (a, CIncrementalLightInfo_DiscardResults i)) infos)"
  by (induction infos)
     (auto simp: set_final_distance_def CIncrementalLightInfo_DiscardResults_idem
        CIncrementalLightInfo_DiscardResults_distance split: option.splits)

lemma discard_comp_idem:
  "(\<lambda>(a, i). (a, CIncrementalLightInfo_DiscardResults i)) \<circ>
   (\<lambda>(a, i). (a, CIncrementalLightInfo_DiscardResults i))
   = (\<lambda>(a :: nat, i). (a, CIncrementalLightInfo_DiscardResults i))"
  by (auto simp: fun_eq_iff CIncrementalLightInfo_DiscardResults_idem)

lemma fst_discard_map:
  "map fst (map (\<lambda>(a, i). (a, CIncrementalLightInfo_DiscardResults i)) infos) = map fst infos"
  by (induction infos) auto

lemma fst_set_final_distance:
  "map fst (map (set_final_distance env eye ls) infos) = map fst infos"
  by (induction infos) (auto simp: set_final_distance_def)

text \<open>
  Claim C7, as amended. If a call of \<open>DiscardResults\<close> returns, a second call right after
  it returns too, and it changes two members only: the contribution counter is one
  higher than after the first call, and the last send time is the second call's clock
  reading less 9. Every per-light record (state, level, matrix, contribution, time
  stamp, distance), the result-changed flag and everything else are as the first call
  left them.
\<close>

theorem DiscardResults_second_call:
  assumes first: "DiscardResults env now1 t = Inr t1"
  shows "DiscardResults env now2 t1 =
           Inr (t1\<lparr>m_nContributionCounter := m_nContributionCounter t1 + 1,
                   m_fLastSendTime := fsub env now2 9\<rparr>)"
proof (cases "m_pLightList t")
  case None
  from first None have t1: "t1 = t\<lparr>m_pIncrementalLightInfoList :=
                   map (\<lambda>(a, i). (a, CIncrementalLightInfo_DiscardResults i))
                     (m_pIncrementalLightInfoList t),
                 m_nContributionCounter := m_nContributionCounter t + 1,
                 m_bResultChangedSinceLastSend := True,
                 m_fLastSendTime := fsub env now1 9\<rparr>"
    by (auto simp: DiscardResults_def Let_def)
  show ?thesis
    using None by (simp add: DiscardResults_def Let_def t1 discard_comp_idem)
next
  case (Some ls)
  let ?D = "map (\<lambda>(a, i). (a, CIncrementalLightInfo_DiscardResults i))"
  let ?eye = "m_LastEyePosition t"
  from first Some obtain infos1 where
    dd: "DiscardResults_distances env ?eye ls (?D (m_pIncrementalLightInfoList t)) = Inr infos1"
    and t1: "t1 = t\<lparr>m_pIncrementalLightInfoList := infos1,
                 m_nContributionCounter := m_nContributionCounter t + 1,
                 m_bResultChangedSinceLastSend := True,
                 m_fLastSendTime := fsub env now1 9\<rparr>"
    by (auto simp: DiscardResults_def Let_def split: sum.splits)
  have infos1: "infos1 = map (set_final_distance env ?eye ls) (?D (m_pIncrementalLightInfoList t))"
    using dd by (rule DiscardResults_distances_map)
  have keys: "map fst (?D (m_pIncrementalLightInfoList t)) = map fst (?D infos1)"
    by (simp only: infos1 fst_discard_map fst_set_final_distance)
  from DiscardResults_distances_keys [OF keys dd]
  obtain infos2 where dd2: "DiscardResults_distances env ?eye ls (?D infos1) = Inr infos2"
    by blast
  have "infos2 = map (set_final_distance env ?eye ls) (?D infos1)"
    using dd2 by (rule DiscardResults_distances_map)
  then have "infos2 = infos1"
    by (simp only: infos1 discard_pass_idem)
  with dd2 show ?thesis
    using Some by (simp add: DiscardResults_def Let_def t1)
qed

text \<open>The amended claim for the example thread, with clock readings 0 and 5.\<close>

theorem DiscardResults_second_call_witness:
  "\<exists>t1. DiscardResults (example_env (\<lambda>n. 0)) 0 example_thread = Inr t1
     \<and> DiscardResults (example_env (\<lambda>n. 0)) 5 t1 =
         Inr (t1\<lparr>m_nContributionCounter := m_nContributionCounter t1 + 1,
                 m_fLastSendTime := fsub (example_env (\<lambda>n. 0)) 5 9\<rparr>)"
proof -
  have "\<exists>t1. DiscardResults (example_env (\<lambda>n. 0)) 0 example_thread = Inr t1"
    by (simp add: DiscardResults_def example_thread_def example_light1_def example_light_def
        new_CLightingPreviewThread_def deref_def update_at_def Let_def)
  then obtain t1 where first: "DiscardResults (example_env (\<lambda>n. 0)) 0 example_thread = Inr t1"
    by blast
  from DiscardResults_second_call [OF first, of 5] first show ?thesis
    by blast
qed

text \<open>
  Claim C7 as stated fails for the contribution counter: on the example thread it is
  1000001 after one call and 1000002 after two.
\<close>

theorem DiscardResults_idempotent_counterexample:
  "map_sum id m_nContributionCounter (DiscardResults (example_env (\<lambda>n. 0)) 0 example_thread)
     = Inr 1000001
   \<and> map_sum id m_nContributionCounter
       (DiscardResults_twice (example_env (\<lambda>n. 0)) 0 0 example_thread)
     = Inr 1000002"
  by (simp add: DiscardResults_twice_def DiscardResults_def example_thread_def example_light1_def
      example_light_def new_CLightingPreviewThread_def deref_def update_at_def Let_def)

section \<open>Properties of the scheduler\<close>

lemma generation_echo_append:
  "generation_echo g (es @ es') = (generation_echo g es \<and> generation_echo (last_generation g es) es')"
  by (induction g es rule: generation_echo.induct) auto

lemma last_generation_append:
  "last_generation g (es @ es') = last_generation (last_generation g es) es'"
  by (induction g es rule: last_generation.induct) auto
lemma DiscardResults_generation:
  "DiscardResults env now t = Inr t' \<Longrightarrow> m_nBitmapGenerationCounter t' = m_nBitmapGenerationCounter t"
  by (auto simp: DiscardResults_def Let_def split: sum.splits option.splits)

lemma HandleAMessage_generation:
  assumes "HandleAMessage env msg_in w t = Inr (quit, w', t')"
  shows "events w' = events w \<and>
         m_nBitmapGenerationCounter t' =
           (case last_generation None [Handled msg_in] of
              None \<Rightarrow> m_nBitmapGenerationCounter t | Some g \<Rightarrow> g)"
proof (cases msg_in)
  case LPREVIEW_MSG_EXIT
  with assms show ?thesis by (simp add: HandleAMessage_def)
next
  case (LPREVIEW_MSG_LIGHT_DATA lights eye)
  with assms show ?thesis
    by (auto simp: HandleAMessage_def read_clock_def UpdateIncrementalForNewLightList_def Let_def
        split: sum.splits prod.splits dest!: DiscardResults_generation)
next
  case (LPREVIEW_MSG_GEOM_DATA tris)
  with assms show ?thesis
    by (auto simp: HandleAMessage_def read_clock_def HandleGeomMessage_def Let_def
        split: sum.splits dest!: DiscardResults_generation)
next
  case (LPREVIEW_MSG_G_BUFFERS width height positions eye gen)
  with assms show ?thesis
    by (auto simp: HandleAMessage_def read_clock_def HandleGBuffersMessage_def CalculateSceneBounds_def
        Let_def split: sum.splits dest!: DiscardResults_generation)
qed

lemma echo_inv_handled:
  assumes inv: "echo_inv w t"
    and h: "HandleAMessage env msg_in (w\<lparr>events := events w @ [Handled msg_in]\<rparr>) t = Inr (quit, w', t')"
  shows "echo_inv w' t'"
proof -
  from HandleAMessage_generation [OF h]
  have ev: "events w' = events w @ [Handled msg_in]"
    and gen: "m_nBitmapGenerationCounter t' =
           (case last_generation None [Handled msg_in] of
              None \<Rightarrow> m_nBitmapGenerationCounter t | Some g \<Rightarrow> g)"
    by simp_all
  show ?thesis
  proof (cases msg_in)
    case (LPREVIEW_MSG_G_BUFFERS width height positions eye g)
    then show ?thesis
      using inv gen unfolding echo_inv_def ev generation_echo_append last_generation_append
      by simp
  qed (use inv gen in \<open>simp_all add: echo_inv_def ev generation_echo_append last_generation_append\<close>)
qed

lemma echo_handled_only:
  "echo_inv w t \<Longrightarrow> generation_echo None (events w @ [Handled msg_in])"
  by (cases msg_in) (auto simp: echo_inv_def generation_echo_append)

lemma Run_messages_echo:
  "echo_inv w t \<Longrightarrow>
   (case Run_messages env should_quit inbox w t of
      Inl (st, w') \<Rightarrow> generation_echo None (events w')
    | Inr (quit, inbox', w', t') \<Rightarrow> echo_inv w' t')"
proof (induction env should_quit inbox w t rule: Run_messages.induct)
  case (1 env should_quit inbox w t)
  show ?case
  proof (cases should_quit)
    case True
    then show ?thesis using "1.prems" by (simp add: Run_messages.simps)
  next
    case nq: False
    show ?thesis
    proof (cases "AnyUsefulWorkToDo t")
      case (Inl f)
      then show ?thesis using nq "1.prems" by (simp add: Run_messages.simps echo_inv_def)
    next
      case (Inr useful)
      define go where "go = (if \<not> useful then True else MessageWaiting env (polls w))"
      define w1 where "w1 = (if \<not> useful then w else w\<lparr>polls := polls w + 1\<rparr>)"
      have pair: "(if \<not> useful then (True, w) else (MessageWaiting env (polls w), w\<lparr>polls := polls w + 1\<rparr>))
                   = (go, w1)"
        by (simp add: go_def w1_def)
      have inv1: "echo_inv w1 t"
        using "1.prems" by (simp add: w1_def echo_inv_def)
      show ?thesis
      proof (cases go)
        case False
        then show ?thesis
          using nq Inr pair inv1 by (simp add: Run_messages.simps)
      next
        case go: True
        show ?thesis
        proof (cases inbox)
          case Nil
          then show ?thesis
            using nq Inr pair go inv1 by (simp add: Run_messages.simps echo_inv_def)
        next
          case (Cons msg_in rest)
          define w2 where "w2 = w1\<lparr>events := events w1 @ [Handled msg_in]\<rparr>"
          show ?thesis
          proof (cases "HandleAMessage env msg_in w2 t")
            case (Inl f)
            have "generation_echo None (events w2)"
              using echo_handled_only [OF inv1] by (simp add: w2_def)
            then show ?thesis
              using nq Inr pair go Cons Inl
              by (subst Run_messages.simps) (simp add: w2_def)
          next
            case r: (Inr res)
            obtain quit w3 t1 where res: "res = (quit, w3, t1)"
              by (cases res) auto
            have inv3: "echo_inv w3 t1"
              using echo_inv_handled [OF inv1] r res by (simp add: w2_def)
            have r': "HandleAMessage env msg_in (w1\<lparr>events := events w1 @ [Handled msg_in]\<rparr>) t
                        = Inr (quit, w3, t1)"
              using r res by (simp add: w2_def)
            have nngo: "\<not> \<not> go" using go by simp
            have IH: "case Run_messages env (should_quit \<or> quit) rest w3 t1 of
                        Inl (st, w') \<Rightarrow> generation_echo None (events w')
                      | Inr (quit, inbox', w', t') \<Rightarrow> echo_inv w' t'"
              by (rule "1.IH" [OF nq Inr refl pair [symmetric] nngo Cons refl r' refl refl inv3])
            show ?thesis
              using nq Inr pair go Cons r res IH
              by (subst Run_messages.simps) (simp add: w2_def)
          qed
        qed
      qed
    qed
  qed
qed

lemma CalculateForLight_generation:
  "CalculateForLight env l t = Inr t' \<Longrightarrow> m_nBitmapGenerationCounter t' = m_nBitmapGenerationCounter t"
  by (auto simp: CalculateForLight_def Let_def split: sum.splits if_splits)

lemma DoWork_generation:
  "DoWork env t = Inr t' \<Longrightarrow> m_nBitmapGenerationCounter t' = m_nBitmapGenerationCounter t"
  by (auto simp: DoWork_def split: option.splits sum.splits if_splits
      dest!: CalculateForLight_generation)

lemma SendResult_events:
  "SendResult env w t = Inr (w', t') \<Longrightarrow>
   events w' = events w @ [Queued (SendVectorMatrixAsRendering t)] \<and>
   m_nBitmapGenerationCounter t' = m_nBitmapGenerationCounter t"
  by (auto simp: SendResult_def read_clock_def Let_def split: option.splits sum.splits)

lemma echo_inv_queued:
  assumes inv: "echo_inv w t"
    and ev: "events w' = events w @ [Queued (SendVectorMatrixAsRendering t)]"
    and gen: "m_nBitmapGenerationCounter t' = m_nBitmapGenerationCounter t"
  shows "echo_inv w' t'"
  using inv gen unfolding echo_inv_def ev generation_echo_append last_generation_append
  by (auto simp: SendVectorMatrixAsRendering_def split: option.splits)

lemma Run_send_echo:
  assumes inv: "echo_inv w t" and run: "Run_send env w t = Inr (w', t')"
  shows "echo_inv w' t'"
proof (cases "m_bResultChangedSinceLastSend t")
  case False
  with run inv show ?thesis by (simp add: Run_send_def)
next
  case True
  define w1 where "w1 = w\<lparr>clock_reads := clock_reads w + 1\<rparr>"
  have inv1: "echo_inv w1 t" using inv by (simp add: w1_def echo_inv_def)
  from run True consider
      (sent) w2 t1 where "SendResult env w1 t = Inr (w2, t1)" "w' = w2"
        "t' = t1\<lparr>m_bResultChangedSinceLastSend := False,
                  m_fLastSendTime := Plat_FloatTime env (clock_reads w)\<rparr>"
    | (kept) "w' = w1" "t' = t"
    by (auto simp: Run_send_def read_clock_def Let_def w1_def split: sum.splits if_splits)
  then show ?thesis
  proof cases
    case sent
    from SendResult_events [OF sent(1)]
    have "echo_inv w2 t1" using echo_inv_queued [OF inv1] by blast
    then show ?thesis using sent(2,3) by (simp add: echo_inv_def)
  next
    case kept
    then show ?thesis using inv1 by simp
  qed
qed

lemma Run_loop_echo:
  "echo_inv w t \<Longrightarrow> generation_echo None (events (snd (Run_loop n env should_quit inbox w t)))"
proof (induction n arbitrary: should_quit inbox w t)
  case 0
  then show ?case by (simp add: echo_inv_def)
next
  case (Suc n)
  show ?case
  proof (cases should_quit)
    case True
    then show ?thesis using Suc.prems by (simp add: echo_inv_def)
  next
    case nq: False
    note msgs = Run_messages_echo [OF Suc.prems, of env should_quit inbox]
    show ?thesis
    proof (cases "Run_messages env should_quit inbox w t")
      case (Inl stop)
      then show ?thesis using nq msgs by (cases stop) simp
    next
      case (Inr res)
      obtain quit inbox1 w1 t1 where res: "res = (quit, inbox1, w1, t1)"
        by (cases res) auto
      have inv1: "echo_inv w1 t1" using msgs Inr res by simp
      define work where "work = (if \<not> quit
                       then (case AnyUsefulWorkToDo t1 of
                               Inl f \<Rightarrow> Inl f
                             | Inr useful \<Rightarrow> if useful then DoWork env t1 else Inr t1)
                       else Inr t1)"
      show ?thesis
      proof (cases work)
        case (Inl f)
        then show ?thesis
          using nq Inr res inv1 by (simp add: work_def [symmetric] echo_inv_def)
      next
        case w: (Inr t2)
        have "m_nBitmapGenerationCounter t2 = m_nBitmapGenerationCounter t1"
          using w by (auto simp: work_def split: if_splits sum.splits dest: DoWork_generation)
        then have inv2: "echo_inv w1 t2"
          using inv1 by (simp add: echo_inv_def)
        show ?thesis
        proof (cases "Run_send env w1 t2")
          case (Inl f)
          then show ?thesis
            using nq Inr res w inv1 by (simp add: work_def [symmetric] echo_inv_def)
        next
          case s: (Inr res2)
          obtain w2 t3 where res2: "res2 = (w2, t3)" by (cases res2) auto
          have "echo_inv w2 t3"
            using Run_send_echo [OF inv2] s res2 by simp
          from Suc.IH [OF this, of quit inbox1] show ?thesis
            using nq Inr res w s res2 by (simp add: work_def [symmetric])
        qed
      qed
    qed
  qed
qed

lemma generation_echo_between:
  assumes "generation_echo g0
             (pre @ Handled (LPREVIEW_MSG_G_BUFFERS width height positions eye g) # mid @
              Queued (LPREVIEW_MSG_DISPLAY_RESULT bm gen) # post)"
    and "\<forall>e \<in> set mid. \<not> is_gbuffers e"
  shows "gen = g"
proof -
  have mid: "last_generation h mid = h" if "\<forall>e \<in> set mid. \<not> is_gbuffers e" for h
    using that by (induction h mid rule: last_generation.induct) auto
  from assms(1) have "generation_echo (Some g) (mid @ Queued (LPREVIEW_MSG_DISPLAY_RESULT bm gen) # post)"
    by (simp add: generation_echo_append)
  then have "generation_echo (last_generation (Some g) mid) (Queued (LPREVIEW_MSG_DISPLAY_RESULT bm gen) # post)"
    by (simp add: generation_echo_append)
  then show ?thesis
    using mid [OF assms(2)] by simp
qed

text \<open>
  Claim C5. In the events of any run of the thread from its construction, however far
  it is followed and however it ends, a display result that is queued after a
  G-buffers message of generation \<open>g\<close> was handled, with no other G-buffers message
  handled in between, carries the generation \<open>g\<close>.
\<close>

theorem generation_echoed:
  assumes run: "LightingPreviewThreadFN fuel env uninit inbox = (st, w)"
    and ev: "events w = pre @ Handled (LPREVIEW_MSG_G_BUFFERS width height positions eye g) # mid @
                        Queued (LPREVIEW_MSG_DISPLAY_RESULT bm gen) # post"
    and mid: "\<forall>e \<in> set mid. \<not> is_gbuffers e"
  shows "gen = g"
proof -
  have "echo_inv \<lparr>clock_reads = 0, polls = 0, events = []\<rparr> (new_CLightingPreviewThread uninit)"
    by (simp add: echo_inv_def)
  from Run_loop_echo [OF this, of fuel env False inbox]
  have "generation_echo None (events w)"
    using run by (simp add: LightingPreviewThreadFN_def)
  then show ?thesis
    unfolding ev using mid by (rule generation_echo_between)
qed

lemma example_run:
  "LightingPreviewThreadFN 1 (example_env (\<lambda>n. if n = 0 then 1 else 0)) (Vector 0 0 0) example_inbox
   = (OutOfFuel,
      \<lparr>clock_reads = 6, polls = 1,
       events = [Handled (example_inbox ! 0), Handled (example_inbox ! 1), Handled (example_inbox ! 2),
                 Queued (LPREVIEW_MSG_DISPLAY_RESULT (4, 4) 7)]\<rparr>)"
  by (simp add: LightingPreviewThreadFN_def new_CLightingPreviewThread_def Run_messages.simps
      AnyUsefulWorkToDo_def HandleAMessage_def HandleGBuffersMessage_def HandleGeomMessage_def
      CalculateSceneBounds_def deref_def update_at_def HasWorkToDo_def
      UpdateIncrementalForNewLightList_def new_CIncrementalLightInfo_def
      CIncrementalLightInfo_DiscardResults_def SetSize_def
      DoWork_def CalculateForLight_def CalculateForLight_accum_def ExecuteParallel_def
      m_LineMask_at_def N_INCREMENTAL_STEPS_def SendVectorMatrixAsRendering_def
      example_env_def example_inbox_def example_light_def
      DiscardResults_def read_clock_def Run_send_def SendResult_def Let_def)

text \<open>
  The claim on the example run: geometry, G-buffers of generation 7 and a light list
  are handled, one kernel run follows, and the display result queued then carries 7.
\<close>

theorem generation_echoed_witness:
  "LightingPreviewThreadFN 1 (example_env (\<lambda>n. if n = 0 then 1 else 0)) (Vector 0 0 0) example_inbox
   = (OutOfFuel,
      \<lparr>clock_reads = 6, polls = 1,
       events = [Handled (example_inbox ! 0), Handled (example_inbox ! 1), Handled (example_inbox ! 2),
                 Queued (LPREVIEW_MSG_DISPLAY_RESULT (4, 4) 7)]\<rparr>)
   \<and> example_inbox ! 1 = LPREVIEW_MSG_G_BUFFERS 4 4 [Vector 0 0 0, Vector 1 1 0] (Vector 0 0 9) 7
   \<and> \<not> is_gbuffers (Handled (example_inbox ! 2))
   \<and> (7 :: int) = 7"
proof -
  let ?w = "\<lparr>clock_reads = 6, polls = 1,
       events = [Handled (example_inbox ! 0), Handled (example_inbox ! 1), Handled (example_inbox ! 2),
                 Queued (LPREVIEW_MSG_DISPLAY_RESULT (4, 4) 7)]\<rparr>"
  have gb: "example_inbox ! 1 = LPREVIEW_MSG_G_BUFFERS 4 4 [Vector 0 0 0, Vector 1 1 0] (Vector 0 0 9) 7"
    by (simp add: example_inbox_def)
  have ev: "events ?w = [Handled (example_inbox ! 0)] @
              Handled (LPREVIEW_MSG_G_BUFFERS 4 4 [Vector 0 0 0, Vector 1 1 0] (Vector 0 0 9) 7) #
              [Handled (example_inbox ! 2)] @ Queued (LPREVIEW_MSG_DISPLAY_RESULT (4, 4) 7) # []"
    by (simp add: example_inbox_def)
  have mid: "\<forall>e \<in> set [Handled (example_inbox ! 2)]. \<not> is_gbuffers e"
    by (simp add: example_inbox_def)
  from generation_echoed [OF example_run ev mid] example_run gb mid show ?thesis
    by simp
qed

text \<open>
  The send check of an iteration that returns queues a display result exactly if the
  result has changed since the last send and more than 10 seconds have passed since
  then or no useful work remains; otherwise it queues nothing. \<open>DiscardResults\<close> marks
  the result changed and sets the last send time to its clock reading less 9.
\<close>

lemma Run_send_queues_iff:
  assumes run: "Run_send env w t = Inr (w', t')"
  shows "(events w' = events w @ [Queued (SendVectorMatrixAsRendering t)]) =
           (m_bResultChangedSinceLastSend t \<and>
            (fsub env (Plat_FloatTime env (clock_reads w)) (m_fLastSendTime t) > 10
             \<or> AnyUsefulWorkToDo t = Inr False))"
    and "events w' = events w \<or> events w' = events w @ [Queued (SendVectorMatrixAsRendering t)]"
  using run
  by (auto simp: Run_send_def read_clock_def Let_def
      split: if_splits sum.splits dest!: SendResult_events)

lemma DiscardResults_backdates:
  "DiscardResults env now t = Inr t' \<Longrightarrow>
   m_bResultChangedSinceLastSend t' \<and> m_fLastSendTime t' = fsub env now 9"
  by (auto simp: DiscardResults_def Let_def split: sum.splits)

text \<open>
  Claim C8. The claim asks that an iteration emits a display result whenever the
  result has changed and no useful work remains. After a G-buffers message is handled
  by the newly constructed thread the result is marked changed and there is no useful
  work, there being no light list; the send check then calls \<open>SendResult\<close>, which
  dereferences the null \<open>m_pLightList\<close> before anything is queued.
\<close>

theorem send_check_without_light_list:
  "(case HandleAMessage env (LPREVIEW_MSG_G_BUFFERS width height positions eye gen) w
           (new_CLightingPreviewThread uninit) of
      Inl f \<Rightarrow> False
    | Inr (quit, w1, t1) \<Rightarrow>
        m_bResultChangedSinceLastSend t1 \<and> AnyUsefulWorkToDo t1 = Inr False
        \<and> Run_send env w1 t1 = Inl NullLightList)"
  by (simp add: new_CLightingPreviewThread_def
      AnyUsefulWorkToDo_def HandleAMessage_def HandleGBuffersMessage_def
      CalculateSceneBounds_def
      DiscardResults_def read_clock_def Run_send_def SendResult_def Let_def)

text \<open>
  Claim C10. The claim asks that \<open>SendResult\<close> never runs while \<open>m_pLightList\<close> is null. A
  G-buffers message or a geometry message followed by the exit message, before any
  light list has arrived, makes the run end in \<open>SendResult\<close> dereferencing the null
  \<open>m_pLightList\<close>.
\<close>

theorem null_light_list_in_SendResult:
  "fst (LightingPreviewThreadFN (Suc n) env uninit
          [LPREVIEW_MSG_G_BUFFERS width height positions eye gen, LPREVIEW_MSG_EXIT])
     = Faulted NullLightList
   \<and> fst (LightingPreviewThreadFN (Suc n) env uninit
          [LPREVIEW_MSG_GEOM_DATA tris, LPREVIEW_MSG_EXIT])
     = Faulted NullLightList"
  by (simp add: LightingPreviewThreadFN_def new_CLightingPreviewThread_def Run_messages.simps
      AnyUsefulWorkToDo_def HandleAMessage_def HandleGBuffersMessage_def HandleGeomMessage_def
      CalculateSceneBounds_def
      DiscardResults_def read_clock_def Run_send_def SendResult_def Let_def)

section \<open>Properties of the shading kernel\<close>

lemma lane_zip4: "i < 4 \<Longrightarrow> lane (zip4 f a b) i = f (lane a i) (lane b i)"
  by (cases a; cases b) simp

lemma lane_shadow_mask:
  "i < 4 \<Longrightarrow> lane (shadow_mask r_rslt len) i =
     (0 \<le> lane (HitIds r_rslt) i \<and> lane (HitDistance r_rslt) i < lane len i)"
  by (cases "HitIds r_rslt"; cases "HitDistance r_rslt"; cases len)
     (auto simp: shadow_mask_def andnot_si128_def cmplt_epi32_def cmplt_ps_def)

lemma lane_AndNotSIMD:
  "i < 4 \<Longrightarrow> lane (AndNotSIMD m v) i = (if lane m i then 0 else lane v i)"
  by (simp add: AndNotSIMD_def lane_zip4)

text \<open>
  Claim C4, as amended. For a 4-pixel group whose unshadowed contribution is nonzero in
  some lane and channel, a packet of four rays is traced whose direction is the
  vector from the pixel position to the light position times the reciprocal of its
  length \<open>len\<close>, whose origin is the pixel position plus \<open>0.02f\<close> times the direction, with
  min-t zero and max-t the constant \<open>1.0e9\<close> in each lane. A lane of the stored
  contribution is zero if that lane reports a hit id of at least 0 at a hit distance
  below the lane's \<open>len\<close>, and is the unshadowed contribution otherwise.
\<close>

theorem shadow_ray_packet:
  "(let l_add = ComputeLightAtPoints ml l pos normal (FourVectors Four_Zeros Four_Zeros Four_Zeros) False;
        to_light = fv_sub ml (DuplicateVector (m_Position l)) pos;
        len = fv_length ml to_light;
        dir = fv_mul_fltx4 ml to_light (ReciprocalSIMD ml len);
        myray = \<lparr>origin = fv_add ml (fv_mul_float ml dir float_0_02) pos, direction = dir\<rparr>;
        r_rslt = Trace4Rays ml myray Four_Zeros (ReplicateX4 1000000000);
        g = CalculateForLightTask_group ml l pos normal albedo line_total
    in \<not> IsAllZeros_or l_add \<longrightarrow>
         traced g = Some (myray, Four_Zeros, ReplicateX4 1000000000)
       \<and> ray_len g = Some len
       \<and> (\<forall>i < 4.
             (let hit = (0 \<le> lane (HitIds r_rslt) i \<and> lane (HitDistance r_rslt) i < lane len i)
              in lane (fx (rslt_element g)) i = (if hit then 0 else lane (fx l_add) i)
               \<and> lane (fy (rslt_element g)) i = (if hit then 0 else lane (fy l_add) i)
               \<and> lane (fz (rslt_element g)) i = (if hit then 0 else lane (fz l_add) i))))"
  by (simp add: CalculateForLightTask_group_def Let_def lane_AndNotSIMD lane_shadow_mask)
lemma example_group_traced:
  "traced example_group =
     Some (\<lparr>origin = FourVectors Four_Zeros Four_Zeros (ReplicateX4 float_0_02),
            direction = FourVectors Four_Zeros Four_Zeros (ReplicateX4 1)\<rparr>,
           Four_Zeros, ReplicateX4 1000000000)
   \<and> ray_len example_group = Some (ReplicateX4 1)"
  by (simp add: example_group_def CalculateForLightTask_group_def example_mathlib_def
      example_light_def fv_zip_def IsAllZeros_or_def Four_Zeros_def ReplicateX4_def
      DuplicateVector_def Let_def)

text \<open>The amended claim for the example group: the packet that is traced, and what is stored.\<close>

theorem shadow_ray_packet_witness:
  "\<not> IsAllZeros_or (ComputeLightAtPoints example_mathlib
         (example_light MATERIAL_LIGHT_POINT (Vector 0 0 1) 1)
         (FourVectors Four_Zeros Four_Zeros Four_Zeros)
         (FourVectors Four_Zeros Four_Zeros (ReplicateX4 1))
         (FourVectors Four_Zeros Four_Zeros Four_Zeros) False)
   \<and> map_option (\<lambda>(myray, TMin, TMax). (TMin, TMax)) (traced example_group)
       = Some (Four_Zeros, ReplicateX4 1000000000)
   \<and> lane (fx (rslt_element example_group)) 0 = 1
   \<and> lane (fx (rslt_element example_group)) 3 = 1"
proof -
  let ?l = "example_light MATERIAL_LIGHT_POINT (Vector 0 0 1) 1"
  let ?pos = "FourVectors Four_Zeros Four_Zeros Four_Zeros"
  let ?normal = "FourVectors Four_Zeros Four_Zeros (ReplicateX4 1)"
  let ?albedo = "FourVectors (ReplicateX4 1) (ReplicateX4 1) (ReplicateX4 1)"
  have lit: "\<not> IsAllZeros_or (ComputeLightAtPoints example_mathlib ?l ?pos ?normal ?pos False)"
    by (simp add: example_mathlib_def fv_zip_def IsAllZeros_or_def Four_Zeros_def ReplicateX4_def)
  have l_add: "fx (ComputeLightAtPoints example_mathlib ?l ?pos ?normal ?pos False) = ReplicateX4 1"
    by (simp add: example_mathlib_def fv_zip_def Four_Zeros_def ReplicateX4_def)
  have no_hit: "\<And>rays TMin TMax. HitIds (Trace4Rays example_mathlib rays TMin TMax) = (- 1, - 1, - 1, - 1)"
    by (simp add: example_mathlib_def)
  have lane1: "\<And>i. i < 4 \<Longrightarrow> lane (ReplicateX4 (1 :: real)) i = 1"
    and lane_id: "\<And>i. i < 4 \<Longrightarrow> lane (- 1, - 1, - 1, - 1 :: int) i = - 1"
    by (simp_all add: ReplicateX4_def)
  from shadow_ray_packet [of example_mathlib ?l ?pos ?normal ?albedo ?pos] lit
  have "traced example_group
          = Some (\<lparr>origin = fv_add example_mathlib
                     (fv_mul_float example_mathlib
                        (fv_mul_fltx4 example_mathlib
                           (fv_sub example_mathlib (DuplicateVector (m_Position ?l)) ?pos)
                           (ReciprocalSIMD example_mathlib
                              (fv_length example_mathlib
                                 (fv_sub example_mathlib (DuplicateVector (m_Position ?l)) ?pos))))
                        float_0_02) ?pos,
                   direction = fv_mul_fltx4 example_mathlib
                           (fv_sub example_mathlib (DuplicateVector (m_Position ?l)) ?pos)
                           (ReciprocalSIMD example_mathlib
                              (fv_length example_mathlib
                                 (fv_sub example_mathlib (DuplicateVector (m_Position ?l)) ?pos)))\<rparr>,
                  Four_Zeros, ReplicateX4 1000000000)"
    and lanes: "\<forall>i < 4. lane (fx (rslt_element example_group)) i = 1"
    unfolding Let_def example_group_def [symmetric]
    by (auto simp: l_add no_hit lane1 lane_id)
  then show ?thesis
    using lit by simp
qed

text \<open>
  Claim C4 as stated fails for max-t: for the example group the ray length is 1 in
  every lane and the max-t passed to the tracer is \<open>1.0e9\<close>.
\<close>

theorem max_t_is_not_ray_length_counterexample:
  "map_option (\<lambda>(myray, TMin, TMax). TMax) (traced example_group) = Some (ReplicateX4 1000000000)
   \<and> ray_len example_group = Some (ReplicateX4 1)
   \<and> ReplicateX4 1000000000 \<noteq> ReplicateX4 1"
  by (simp add: example_group_traced ReplicateX4_def)

end
